theory Spec2Isabelle
  imports Main "HOL-Library.Word"
begin

section \<open>SimpleFS: constants and on-disk types\<close>

text \<open>
  The headers \<^verbatim>\<open>sfs/disk.h\<close> and \<^verbatim>\<open>sfs/fs.h\<close> are not part of the sources at hand; the
  constants and the struct layouts they declare are taken from the specification
  (section 3 and section 6) and from the way \<^verbatim>\<open>disk.c\<close> and \<^verbatim>\<open>fs.c\<close> use them.
\<close>

type_synonym u32 = "32 word"

text \<open>Modelled from the spec: the macro \<^verbatim>\<open>BLOCK_SIZE\<close> of the missing header
  \<^verbatim>\<open>sfs/disk.h\<close> (B = 4096 bytes per block).\<close>

definition BLOCK_SIZE :: nat where
  "BLOCK_SIZE = 4096"

text \<open>Modelled from the spec: the macro \<^verbatim>\<open>DISK_FAILURE\<close> of the missing header
  \<^verbatim>\<open>sfs/disk.h\<close>. The specification asks for a negative byte count on error, and
  \<^verbatim>\<open>disk.c\<close> returns it exactly where \<^verbatim>\<open>lseek\<close> yields -1.\<close>

definition DISK_FAILURE :: int where
  "DISK_FAILURE = - 1"

text \<open>Modelled from the spec: the macro \<^verbatim>\<open>MAGIC_NUMBER\<close> of the missing header
  \<^verbatim>\<open>sfs/fs.h\<close>.\<close>

definition MAGIC_NUMBER :: u32 where
  "MAGIC_NUMBER = 0xf0f03410"

text \<open>Modelled from the spec: the macro \<^verbatim>\<open>INODES_PER_BLOCK\<close> of the missing header
  \<^verbatim>\<open>sfs/fs.h\<close>.\<close>

definition INODES_PER_BLOCK :: nat where
  "INODES_PER_BLOCK = 128"

text \<open>Modelled from the spec: the macro \<^verbatim>\<open>POINTERS_PER_INODE\<close> of the missing header
  \<^verbatim>\<open>sfs/fs.h\<close>.\<close>

definition POINTERS_PER_INODE :: nat where
  "POINTERS_PER_INODE = 5"

text \<open>Modelled from the spec: the macro \<^verbatim>\<open>POINTERS_PER_BLOCK\<close> of the missing header
  \<^verbatim>\<open>sfs/fs.h\<close>.\<close>

definition POINTERS_PER_BLOCK :: nat where
  "POINTERS_PER_BLOCK = 1024"

text \<open>The largest value of a C \<^verbatim>\<open>int\<close> (32 bits); incrementing it is undefined behaviour.\<close>

definition INT_MAX :: nat where
  "INT_MAX = 2147483647"

text \<open>
  Modelled from the spec: the union \<^verbatim>\<open>Block\<close> of the missing header \<^verbatim>\<open>sfs/fs.h\<close>. It
  overlays the superblock, 128 inodes, 1024 pointers and 4096 raw bytes on the same
  storage. Every typed field is a 32-bit unsigned integer at a 4-byte boundary, and the
  code at hand never looks at single bytes, so a block is its 1024 words, addressed by
  word index (indices from 1024 on are never used).
\<close>

type_synonym Block = "nat \<Rightarrow> u32"

text \<open>Modelled from the spec: the struct \<^verbatim>\<open>SuperBlock\<close> of the missing header
  \<^verbatim>\<open>sfs/fs.h\<close>, four 32-bit fields at words 0 to 3 of block 0.\<close>

record SuperBlock =
  magic_number :: u32
  sb_blocks :: u32
  inode_blocks :: u32
  inodes :: u32

text \<open>Modelled from the spec: the struct \<^verbatim>\<open>Inode\<close> of the missing header
  \<^verbatim>\<open>sfs/fs.h\<close>, 32 bytes: valid, size (here \<open>inode_size\<close>, as \<open>size\<close> is a constant of HOL), five direct
  pointers, one indirect pointer.\<close>

record Inode =
  valid :: u32
  inode_size :: u32
  direct :: "u32 list"
  indirect :: u32

text \<open>The view \<^verbatim>\<open>blk.super\<close> of a block, and the assignment \<^verbatim>\<open>blk.super = sp\<close>.\<close>

definition super_of :: "Block \<Rightarrow> SuperBlock" where
  "super_of blk =
     \<lparr>magic_number = blk 0, sb_blocks = blk 1, inode_blocks = blk 2, inodes = blk 3\<rparr>"

definition set_super :: "Block \<Rightarrow> SuperBlock \<Rightarrow> Block" where
  "set_super blk sp =
     blk(0 := magic_number sp, 1 := sb_blocks sp, 2 := inode_blocks sp, 3 := inodes sp)"

text \<open>The view \<^verbatim>\<open>blk.inodes[j]\<close>: slot \<open>j\<close> occupies the words \<open>8 * j\<close> to \<open>8 * j + 7\<close>.\<close>

definition inode_at :: "Block \<Rightarrow> nat \<Rightarrow> Inode" where
  "inode_at blk j =
     \<lparr>valid = blk (8 * j), inode_size = blk (8 * j + 1),
      direct = map (\<lambda>k. blk (8 * j + 2 + k)) [0..<POINTERS_PER_INODE],
      indirect = blk (8 * j + 7)\<rparr>"

text \<open>The assignment \<^verbatim>\<open>blk.inodes[j] = ino\<close> (the struct has exactly five direct
  pointers).\<close>

definition set_inode :: "Block \<Rightarrow> nat \<Rightarrow> Inode \<Rightarrow> Block" where
  "set_inode blk j ino =
     blk(8 * j := valid ino, 8 * j + 1 := inode_size ino,
         8 * j + 2 := direct ino ! 0, 8 * j + 3 := direct ino ! 1,
         8 * j + 4 := direct ino ! 2, 8 * j + 5 := direct ino ! 3,
         8 * j + 6 := direct ino ! 4, 8 * j + 7 := indirect ino)"

text \<open>The view \<^verbatim>\<open>blk.pointers[i]\<close>.\<close>

definition pointer_at :: "Block \<Rightarrow> nat \<Rightarrow> u32" where
  "pointer_at blk i = blk i"

section \<open>The environment: backing file, system calls, heap\<close>

text \<open>
  Modelled from the spec: the struct \<^verbatim>\<open>Disk\<close> of the missing header \<^verbatim>\<open>sfs/disk.h\<close>, with
  the fields \<^verbatim>\<open>disk_open\<close> sets. A \<^verbatim>\<open>Disk *\<close> is a \<open>Disk option\<close>, \<open>None\<close> for the null
  pointer. The type \<^verbatim>\<open>size_t\<close> is \<open>nat\<close>: no claim depends on its width.
\<close>

record Disk =
  fd :: int
  blocks :: nat
  reads :: nat
  writes :: nat

text \<open>The system calls \<^verbatim>\<open>disk.c\<close> issues, with the descriptor and, for a seek, the
  byte offset.\<close>

datatype syscall = Lseek int nat | Read int | Write int

text \<open>
  The world outside the program. \<open>backing\<close> is the backing file, block by block;
  \<open>open_fd\<close> the one descriptor that refers to it (a system call on any other
  descriptor fails); \<open>pos\<close> the file position; \<open>bad_seek\<close>, \<open>bad_read\<close> and
  \<open>bad_write\<close> the byte offsets at which the respective system call fails with -1;
  \<open>io_log\<close> every system call issued so far, oldest first. A read or write that does
  not fail transfers a whole block. \<open>uninit\<close> is the indeterminate content of an
  uninitialised \<^verbatim>\<open>Block\<close> on the stack and \<open>uninit_ptr\<close> that of an uninitialised
  pointer. \<open>heap\<close> holds the inodes allocated by \<^verbatim>\<open>malloc\<close>, by address; address 0 is the
  null pointer and \<open>brk\<close> the last address handed out.
\<close>

record World =
  backing :: "nat \<Rightarrow> Block"
  open_fd :: int
  pos :: nat
  bad_seek :: "nat set"
  bad_read :: "nat set"
  bad_write :: "nat set"
  io_log :: "syscall list"
  uninit :: Block
  uninit_ptr :: nat
  heap :: "nat \<Rightarrow> Inode option"
  brk :: nat

definition NULL :: nat where
  "NULL = 0"

text \<open>\<^verbatim>\<open>lseek(fd, off, SEEK_SET)\<close>: the new offset, or -1.\<close>

definition sys_lseek :: "World \<Rightarrow> int \<Rightarrow> nat \<Rightarrow> int \<times> World" where
  "sys_lseek w f off =
     (let w1 = w\<lparr>io_log := io_log w @ [Lseek f off]\<rparr>
      in if f \<noteq> open_fd w \<or> off \<in> bad_seek w then (- 1, w1)
         else (int off, w1\<lparr>pos := off\<rparr>))"

text \<open>\<^verbatim>\<open>read(fd, data, BLOCK_SIZE)\<close>: the byte count and the buffer afterwards.\<close>

definition sys_read :: "World \<Rightarrow> int \<Rightarrow> Block \<Rightarrow> int \<times> Block \<times> World" where
  "sys_read w f buf =
     (let w1 = w\<lparr>io_log := io_log w @ [Read f]\<rparr>
      in if f \<noteq> open_fd w \<or> pos w \<in> bad_read w then (- 1, buf, w1)
         else (int BLOCK_SIZE, backing w (pos w div BLOCK_SIZE),
               w1\<lparr>pos := pos w + BLOCK_SIZE\<rparr>))"

text \<open>\<^verbatim>\<open>write(fd, data, BLOCK_SIZE)\<close>: the byte count.\<close>

definition sys_write :: "World \<Rightarrow> int \<Rightarrow> Block \<Rightarrow> int \<times> World" where
  "sys_write w f buf =
     (let w1 = w\<lparr>io_log := io_log w @ [Write f]\<rparr>
      in if f \<noteq> open_fd w \<or> pos w \<in> bad_write w then (- 1, w1)
         else (int BLOCK_SIZE,
               w1\<lparr>backing := (backing w)(pos w div BLOCK_SIZE := buf),
                  pos := pos w + BLOCK_SIZE\<rparr>))"

section \<open>disk.c\<close>

text \<open>\<^verbatim>\<open>disk_sanity_check\<close>: the three tests in the order of the source. The buffer is a
  \<open>Block option\<close>, \<open>None\<close> for the null pointer.\<close>

definition disk_sanity_check :: "Disk option \<Rightarrow> nat \<Rightarrow> Block option \<Rightarrow> bool" where
  "disk_sanity_check disk block data =
     (case disk of
        None \<Rightarrow> False
      | Some d \<Rightarrow>
          if fd d < 0 then False
          else if block \<ge> blocks d then False
          else if data = None then False
          else True)"

text \<open>\<^verbatim>\<open>disk_read\<close>: returns the byte count, the buffer afterwards and the world.\<close>

definition disk_read ::
  "World \<Rightarrow> Disk option \<Rightarrow> nat \<Rightarrow> Block option \<Rightarrow> int \<times> Block option \<times> World" where
  "disk_read w disk block data =
     (if \<not> disk_sanity_check disk block data then (DISK_FAILURE, data, w)
      else case (disk, data) of
        (Some d, Some buf) \<Rightarrow>
          (case sys_lseek w (fd d) (block * BLOCK_SIZE) of
             (r, w1) \<Rightarrow>
               if r = - 1 then (DISK_FAILURE, data, w1)
               else (case sys_read w1 (fd d) buf of
                       (n, buf', w2) \<Rightarrow> (n, Some buf', w2)))
      | _ \<Rightarrow> (DISK_FAILURE, data, w))"

text \<open>\<^verbatim>\<open>disk_write\<close>: returns the byte count and the world.\<close>

definition disk_write ::
  "World \<Rightarrow> Disk option \<Rightarrow> nat \<Rightarrow> Block option \<Rightarrow> int \<times> World" where
  "disk_write w disk block data =
     (if \<not> disk_sanity_check disk block data then (DISK_FAILURE, w)
      else case (disk, data) of
        (Some d, Some buf) \<Rightarrow>
          (case sys_lseek w (fd d) (block * BLOCK_SIZE) of
             (r, w1) \<Rightarrow>
               if r = - 1 then (DISK_FAILURE, w1)
               else sys_write w1 (fd d) buf)
      | _ \<Rightarrow> (DISK_FAILURE, w))"

section \<open>fs.c\<close>

text \<open>
  Modelled from the spec: the struct \<^verbatim>\<open>FileSystem\<close> of the missing header \<^verbatim>\<open>sfs/fs.h\<close>:
  the mounted disk, the free-block bitmap (a heap array of \<^verbatim>\<open>bool\<close>, \<open>None\<close> while the
  pointer refers to no array) and the cached superblock. A \<^verbatim>\<open>FileSystem *\<close> is modelled
  by the record it points to, so \<^verbatim>\<open>assert(fs != NULL)\<close> holds throughout.
\<close>

record FileSystem =
  disk :: "Disk option"
  free_blocks :: "bool list option"
  meta_data :: SuperBlock

text \<open>
  What ends a run of the C program without a return value: a failed \<^verbatim>\<open>assert\<close>, a
  dereference of a null or dangling pointer, and the overflow of a signed \<^verbatim>\<open>int\<close>.
\<close>

datatype fault = AssertFail | SegFault | IntOverflow

text \<open>
  The assignment \<^verbatim>\<open>free_blocks[idx] = v\<close> on the bitmap array, \<open>idx\<close> being an \<^verbatim>\<open>int\<close>.
  The source has no bounds check. A store outside the array goes to memory next to it,
  which the model does not track: the array itself is unchanged and the run goes on.
\<close>

definition array_store :: "bool list \<Rightarrow> int \<Rightarrow> bool \<Rightarrow> bool list" where
  "array_store fb idx v = (if 0 \<le> idx \<and> nat idx < length fb then fb[nat idx := v] else fb)"

text \<open>Reading through an \<^verbatim>\<open>Inode *\<close>, and \<^verbatim>\<open>free\<close>.\<close>

definition deref :: "World \<Rightarrow> nat \<Rightarrow> Inode option" where
  "deref w p = (if p = NULL then None else heap w p)"

definition free_ptr :: "World \<Rightarrow> nat \<Rightarrow> World" where
  "free_ptr w p = (if p = NULL then w else w\<lparr>heap := (heap w)(p := None)\<rparr>)"

text \<open>\<^verbatim>\<open>disk_read(d, i, blk.data)\<close> for a \<^verbatim>\<open>Block blk\<close> on the stack, whose address is
  never null: the byte count, the block afterwards and the world.\<close>

definition read_block :: "World \<Rightarrow> Disk option \<Rightarrow> nat \<Rightarrow> Block \<Rightarrow> int \<times> Block \<times> World" where
  "read_block w dk i blk =
     (case disk_read w dk i (Some blk) of
        (r, data, w') \<Rightarrow> (r, (case data of Some b \<Rightarrow> b | None \<Rightarrow> blk), w'))"

subsection \<open>fs\_load\_inode and fs\_save\_inode\<close>

text \<open>
  \<^verbatim>\<open>fs_load_inode(fs, inode_number, node)\<close>. The parameter \<open>node\<close> is the pointer value
  the caller passes. The function copies the inode to a fresh heap cell and binds its
  own parameter to that cell; the result is the boolean and the world (with the new
  cell in it), since nothing else reaches the caller.
\<close>

definition fs_load_inode :: "World \<Rightarrow> FileSystem \<Rightarrow> nat \<Rightarrow> nat \<Rightarrow> fault + (bool \<times> World)" where
  "fs_load_inode w fs inode_number node =
     (if disk fs = None then Inl AssertFail
      else if node \<noteq> NULL then Inl AssertFail
      else
        let blk_number = inode_number div INODES_PER_BLOCK;
            offset = inode_number - INODES_PER_BLOCK * blk_number
        in case read_block w (disk fs) blk_number (uninit w) of
             (r, blk, w1) \<Rightarrow>
               if r = DISK_FAILURE then Inr (False, w1)
               else
                 let ino = inode_at blk offset
                 in if valid ino = 0 then Inr (False, w1)
                    else Inr (True, w1\<lparr>heap := (heap w1)(Suc (brk w1) := Some ino),
                                        brk := Suc (brk w1)\<rparr>))"

text \<open>\<^verbatim>\<open>fs_save_inode(fs, inode_number, node)\<close>.\<close>

definition fs_save_inode :: "World \<Rightarrow> FileSystem \<Rightarrow> nat \<Rightarrow> nat \<Rightarrow> fault + (bool \<times> World)" where
  "fs_save_inode w fs inode_number node =
     (if disk fs = None then Inl AssertFail
      else if node = NULL then Inl AssertFail
      else
        let blk_number = inode_number div INODES_PER_BLOCK;
            offset = inode_number - INODES_PER_BLOCK * blk_number
        in case read_block w (disk fs) blk_number (uninit w) of
             (r, blk, w1) \<Rightarrow>
               if r = DISK_FAILURE then Inr (False, w1)
               else
                 (case deref w1 node of
                    None \<Rightarrow> Inl SegFault
                  | Some ino \<Rightarrow>
                      (case disk_write w1 (disk fs) blk_number (Some (set_inode blk offset ino)) of
                         (r2, w2) \<Rightarrow>
                           if r2 = DISK_FAILURE then Inr (False, w2) else Inr (True, w2))))"

subsection \<open>fs\_initialize\_free\_block\_bitmap\<close>

text \<open>The innermost loop, over the direct pointers of one valid inode. The index is
  computed in 32-bit unsigned arithmetic and stored in an \<^verbatim>\<open>int\<close>.\<close>

function bitmap_direct :: "u32 \<Rightarrow> Inode \<Rightarrow> nat \<Rightarrow> bool list \<Rightarrow> bool list" where
  "bitmap_direct ib ino ptr fb =
     (if ptr < POINTERS_PER_INODE then
        (if direct ino ! ptr \<noteq> 0 then
           (let idx = sint (direct ino ! ptr - 1 - ib)
            in bitmap_direct ib ino (Suc ptr) (array_store fb idx True))
         else bitmap_direct ib ino (Suc ptr) fb)
      else fb)"
  by pat_completeness auto
termination
  by (relation "measure (\<lambda>(ib, ino, ptr, fb). POINTERS_PER_INODE - ptr)") auto

declare bitmap_direct.simps [simp del]

text \<open>The loop over the 128 inodes of one inode block.\<close>

function bitmap_inodes :: "u32 \<Rightarrow> Block \<Rightarrow> nat \<Rightarrow> bool list \<Rightarrow> bool list" where
  "bitmap_inodes ib blk j fb =
     (if j < INODES_PER_BLOCK then
        (let ino = inode_at blk j
         in if valid ino = 0 then bitmap_inodes ib blk (Suc j) fb
            else bitmap_inodes ib blk (Suc j) (bitmap_direct ib ino 0 fb))
      else fb)"
  by pat_completeness auto
termination
  by (relation "measure (\<lambda>(ib, blk, j, fb). INODES_PER_BLOCK - j)") auto

declare bitmap_inodes.simps [simp del]

text \<open>The loop over the inode blocks, \<open>i\<close> being the \<^verbatim>\<open>int\<close> loop counter. The result is
  \<open>None\<close> for the bitmap when a read fails and the function returns early.\<close>

function bitmap_blocks ::
  "World \<Rightarrow> FileSystem \<Rightarrow> nat \<Rightarrow> bool list \<Rightarrow> fault + (bool list option \<times> World)" where
  "bitmap_blocks w fs i fb =
     (if i \<le> unat (inode_blocks (meta_data fs)) then
        (case read_block w (disk fs) i (uninit w) of
           (r, blk, w1) \<Rightarrow>
             if r = DISK_FAILURE then Inr (None, w1)
             else
               (let fb' = bitmap_inodes (inode_blocks (meta_data fs)) blk 0 fb
                in if i = INT_MAX then Inl IntOverflow
                   else bitmap_blocks w1 fs (Suc i) fb'))
      else Inr (Some fb, w))"
  by pat_completeness auto
termination
  by (relation "measure (\<lambda>(w, fs, i, fb). Suc (unat (inode_blocks (meta_data fs))) - i)") auto

declare bitmap_blocks.simps [simp del]

text \<open>\<^verbatim>\<open>fs_initialize_free_block_bitmap(fs)\<close>: the array has \<open>blocks - inode_blocks\<close>
  entries (32-bit subtraction), all cleared; \<^verbatim>\<open>fs->free_blocks\<close> is assigned only when no
  read failed.\<close>

definition fs_initialize_free_block_bitmap ::
  "World \<Rightarrow> FileSystem \<Rightarrow> fault + (FileSystem \<times> World)" where
  "fs_initialize_free_block_bitmap w fs =
     (if disk fs = None then Inl AssertFail
      else
        let data_blocks = sb_blocks (meta_data fs) - inode_blocks (meta_data fs);
            fb = replicate (unat data_blocks) False
        in case bitmap_blocks w fs 1 fb of
             Inl e \<Rightarrow> Inl e
           | Inr (None, w1) \<Rightarrow> Inr (fs, w1)
           | Inr (Some fb', w1) \<Rightarrow> Inr (fs\<lparr>free_blocks := Some fb'\<rparr>, w1))"

subsection \<open>fs\_format and fs\_mount\<close>

text \<open>The loop of \<^verbatim>\<open>fs_format\<close> that writes the inode blocks, and the \<^verbatim>\<open>return false\<close>
  that follows it.\<close>

function format_loop :: "World \<Rightarrow> Disk option \<Rightarrow> u32 \<Rightarrow> Block \<Rightarrow> nat \<Rightarrow> fault + (bool \<times> World)" where
  "format_loop w dk n_inode_blocks blk i =
     (if i \<le> unat n_inode_blocks then
        (case disk_write w dk i (Some blk) of
           (r, w1) \<Rightarrow>
             if r = DISK_FAILURE then Inr (False, w1)
             else if i = INT_MAX then Inl IntOverflow
             else format_loop w1 dk n_inode_blocks blk (Suc i))
      else Inr (False, w))"
  by pat_completeness auto
termination
  by (relation "measure (\<lambda>(w, dk, n, blk, i). Suc (unat n) - i)") auto

declare format_loop.simps [simp del]

text \<open>
  \<^verbatim>\<open>fs_format(fs, disk)\<close>. The value of \<^verbatim>\<open>ceil(disk->blocks * 0.1)\<close>, a floating-point
  computation converted to \<^verbatim>\<open>uint32_t\<close>, is the parameter \<open>ceil_tenth\<close>. The local
  \<^verbatim>\<open>Block blk\<close> starts with indeterminate content, receives the superblock in its first
  four words and, after block 0 is written, 128 cleared inodes.
\<close>

definition fs_format ::
  "World \<Rightarrow> FileSystem \<Rightarrow> Disk option \<Rightarrow> u32 \<Rightarrow> fault + (bool \<times> World)" where
  "fs_format w fs dk ceil_tenth =
     (case dk of
        None \<Rightarrow> Inl AssertFail
      | Some d \<Rightarrow>
          let sp = \<lparr>magic_number = MAGIC_NUMBER, sb_blocks = of_nat (blocks d),
                    inode_blocks = ceil_tenth,
                    inodes = ceil_tenth * of_nat INODES_PER_BLOCK\<rparr>;
              blk = set_super (uninit w) sp
          in case disk_write w dk 0 (Some blk) of
               (r, w1) \<Rightarrow>
                 if r = DISK_FAILURE then Inr (False, w1)
                 else
                   let inode = \<lparr>valid = 0, inode_size = 0,
                                direct = replicate POINTERS_PER_INODE 0, indirect = 0\<rparr>;
                       blk' = fold (\<lambda>i b. set_inode b i inode) [0..<INODES_PER_BLOCK] blk
                   in format_loop w1 dk ceil_tenth blk' 1)"

text \<open>\<^verbatim>\<open>fs_mount(fs, disk)\<close>: the boolean, the file system record and the world.\<close>

definition fs_mount ::
  "World \<Rightarrow> FileSystem \<Rightarrow> Disk option \<Rightarrow> fault + (bool \<times> FileSystem \<times> World)" where
  "fs_mount w fs dk =
     (case dk of
        None \<Rightarrow> Inl AssertFail
      | Some d \<Rightarrow>
          (case read_block w dk 0 (uninit w) of
             (r, blk, w1) \<Rightarrow>
               if r = DISK_FAILURE then Inr (False, fs, w1)
               else if magic_number (super_of blk) \<noteq> MAGIC_NUMBER then Inr (False, fs, w1)
               else
                 (case fs_initialize_free_block_bitmap w1
                         (fs\<lparr>disk := dk, meta_data := super_of blk\<rparr>) of
                    Inl e \<Rightarrow> Inl e
                  | Inr (fs2, w2) \<Rightarrow> Inr (False, fs2, w2))))"

subsection \<open>fs\_create\<close>

text \<open>The inner loop of \<^verbatim>\<open>fs_create\<close>: the first slot from \<open>j\<close> on whose \<open>valid\<close> field
  is 0, if there is one.\<close>

function create_scan :: "Block \<Rightarrow> nat \<Rightarrow> nat option" where
  "create_scan blk j =
     (if j < INODES_PER_BLOCK then
        (if valid (inode_at blk j) = 0 then Some j else create_scan blk (Suc j))
      else None)"
  by pat_completeness auto
termination
  by (relation "measure (\<lambda>(blk, j). INODES_PER_BLOCK - j)") auto

declare create_scan.simps [simp del]

text \<open>
  The outer loop of \<^verbatim>\<open>fs_create\<close>. The test after \<^verbatim>\<open>disk_read\<close> is
  \<^verbatim>\<open>!= DISK_FAILURE\<close>, as in the source: a read that succeeds ends the function with -1,
  and after a read that fails the scan runs over the block as the failed read left it.
  Only the field \<open>valid\<close> of the slot found is assigned before the block is written.
\<close>

function create_loop :: "World \<Rightarrow> FileSystem \<Rightarrow> nat \<Rightarrow> fault + (int \<times> World)" where
  "create_loop w fs i =
     (if i \<le> unat (inode_blocks (meta_data fs)) then
        (case read_block w (disk fs) i (uninit w) of
           (r, blk, w1) \<Rightarrow>
             if r \<noteq> DISK_FAILURE then Inr (- 1, w1)
             else
               (case create_scan blk 0 of
                  Some j \<Rightarrow>
                    (let blk' = blk(8 * j := 1);
                         inode = (i - 1) * INODES_PER_BLOCK + j
                     in if inode > INT_MAX then Inl IntOverflow
                        else (case disk_write w1 (disk fs) i (Some blk') of
                                (r2, w2) \<Rightarrow>
                                  if r2 = DISK_FAILURE then Inr (- 1, w2)
                                  else Inr (int inode, w2)))
                | None \<Rightarrow>
                    if i = INT_MAX then Inl IntOverflow
                    else create_loop w1 fs (Suc i)))
      else Inr (- 1, w))"
  by pat_completeness auto
termination
  by (relation "measure (\<lambda>(w, fs, i). Suc (unat (inode_blocks (meta_data fs))) - i)") auto

declare create_loop.simps [simp del]

definition fs_create :: "World \<Rightarrow> FileSystem \<Rightarrow> fault + (int \<times> World)" where
  "fs_create w fs =
     (if disk fs = None then Inl AssertFail else create_loop w fs 1)"

subsection \<open>fs\_remove\<close>

text \<open>The loop that releases the direct blocks; \<open>inp\<close> is the pointer \<^verbatim>\<open>in\<close>, read and
  written through the heap. The bitmap is indexed with the block number itself.\<close>

function remove_direct ::
  "World \<Rightarrow> FileSystem \<Rightarrow> nat \<Rightarrow> nat \<Rightarrow> fault + (FileSystem \<times> World)" where
  "remove_direct w fs inp i =
     (if i < POINTERS_PER_INODE then
        (case deref w inp of
           None \<Rightarrow> Inl SegFault
         | Some ino \<Rightarrow>
             (let num = sint (direct ino ! i)
              in if num = 0 then remove_direct w fs inp (Suc i)
                 else (case free_blocks fs of
                         None \<Rightarrow> Inl SegFault
                       | Some fb \<Rightarrow>
                           remove_direct
                             (w\<lparr>heap := (heap w)(inp := Some (ino\<lparr>direct := (direct ino)[i := 0]\<rparr>))\<rparr>)
                             (fs\<lparr>free_blocks := Some (array_store fb num False)\<rparr>) inp (Suc i))))
      else Inr (fs, w))"
  by pat_completeness auto
termination
  by (relation "measure (\<lambda>(w, fs, inp, i). POINTERS_PER_INODE - i)") auto

declare remove_direct.simps [simp del]

text \<open>The loop over the entries of the indirect block.\<close>

function remove_indirect :: "FileSystem \<Rightarrow> Block \<Rightarrow> nat \<Rightarrow> fault + FileSystem" where
  "remove_indirect fs blk i =
     (if i < POINTERS_PER_BLOCK then
        (let num = sint (pointer_at blk i)
         in if num = 0 then remove_indirect fs blk (Suc i)
            else (case free_blocks fs of
                    None \<Rightarrow> Inl SegFault
                  | Some fb \<Rightarrow>
                      remove_indirect (fs\<lparr>free_blocks := Some (array_store fb num False)\<rparr>)
                        blk (Suc i)))
      else Inr fs)"
  by pat_completeness auto
termination
  by (relation "measure (\<lambda>(fs, blk, i). POINTERS_PER_BLOCK - i)") auto

declare remove_indirect.simps [simp del]

text \<open>The end of \<^verbatim>\<open>fs_remove\<close>: clear \<open>valid\<close> and \<open>indirect\<close>, save, free.\<close>

definition fs_remove_finish ::
  "World \<Rightarrow> FileSystem \<Rightarrow> nat \<Rightarrow> nat \<Rightarrow> fault + (bool \<times> FileSystem \<times> World)" where
  "fs_remove_finish w fs inode_number inp =
     (case deref w inp of
        None \<Rightarrow> Inl SegFault
      | Some ino \<Rightarrow>
          (let w1 = w\<lparr>heap := (heap w)(inp := Some (ino\<lparr>valid := 0, indirect := 0\<rparr>))\<rparr>
           in case fs_save_inode w1 fs inode_number inp of
                Inl e \<Rightarrow> Inl e
              | Inr (res, w2) \<Rightarrow> Inr (res, fs, free_ptr w2 inp)))"

text \<open>\<^verbatim>\<open>fs_remove\<close> from the first loop on, with the value \<open>inp\<close> of its pointer \<^verbatim>\<open>in\<close>.\<close>

definition fs_remove_body ::
  "World \<Rightarrow> FileSystem \<Rightarrow> nat \<Rightarrow> nat \<Rightarrow> fault + (bool \<times> FileSystem \<times> World)" where
  "fs_remove_body w fs inode_number inp =
     (case remove_direct w fs inp 0 of
        Inl e \<Rightarrow> Inl e
      | Inr (fs1, w1) \<Rightarrow>
          (case deref w1 inp of
             None \<Rightarrow> Inl SegFault
           | Some ino \<Rightarrow>
               if unat (inode_size ino) > BLOCK_SIZE * POINTERS_PER_INODE then
                 (if \<not> indirect ino > 0 then Inl AssertFail
                  else (case read_block w1 (disk fs1) (unat (indirect ino)) (uninit w1) of
                          (r, blk, w2) \<Rightarrow>
                            if r = DISK_FAILURE then Inr (False, fs1, free_ptr w2 inp)
                            else (case remove_indirect fs1 blk 0 of
                                    Inl e \<Rightarrow> Inl e
                                  | Inr fs2 \<Rightarrow> fs_remove_finish w2 fs2 inode_number inp)))
               else fs_remove_finish w1 fs1 inode_number inp))"

text \<open>\<^verbatim>\<open>fs_remove(fs, inode_number)\<close>: \<^verbatim>\<open>in\<close> is initialised to the null pointer and
  passed by value.\<close>

definition fs_remove ::
  "World \<Rightarrow> FileSystem \<Rightarrow> nat \<Rightarrow> fault + (bool \<times> FileSystem \<times> World)" where
  "fs_remove w fs inode_number =
     (let inp = NULL
      in case fs_load_inode w fs inode_number inp of
           Inl e \<Rightarrow> Inl e
         | Inr (res, w1) \<Rightarrow>
             if \<not> res then Inr (False, fs, w1)
             else fs_remove_body w1 fs inode_number inp)"

subsection \<open>fs\_stat, fs\_read and fs\_write\<close>

text \<open>\<^verbatim>\<open>fs_stat\<close> after the call of \<^verbatim>\<open>fs_load_inode\<close> has returned true, with the value
  \<open>inp\<close> of its pointer \<^verbatim>\<open>in\<close>. (The source declares \<^verbatim>\<open>res\<close> twice in this function; the
  second one, an \<^verbatim>\<open>int\<close>, holds the size.)\<close>

definition fs_stat_body :: "World \<Rightarrow> nat \<Rightarrow> fault + (int \<times> World)" where
  "fs_stat_body w inp =
     (case deref w inp of
        None \<Rightarrow> Inl SegFault
      | Some ino \<Rightarrow> Inr (sint (inode_size ino), free_ptr w inp))"

text \<open>\<^verbatim>\<open>fs_stat(fs, inode_number)\<close>: \<^verbatim>\<open>in\<close> is declared without an initialiser.\<close>

definition fs_stat :: "World \<Rightarrow> FileSystem \<Rightarrow> nat \<Rightarrow> fault + (int \<times> World)" where
  "fs_stat w fs inode_number =
     (let inp = uninit_ptr w
      in case fs_load_inode w fs inode_number inp of
           Inl e \<Rightarrow> Inl e
         | Inr (res, w1) \<Rightarrow>
             if \<not> res then Inr (- 1, w1)
             else fs_stat_body w1 inp)"

text \<open>
  \<^verbatim>\<open>fs_read(fs, inode_number, data, length, offset)\<close>. After the inode is loaded the
  source has a loop over the direct pointers whose body is an unfinished \<^verbatim>\<open>if (i)\<close>
  with no statement, and then \<^verbatim>\<open>return -1\<close>: nothing is copied into \<open>data\<close>. The result
  is the return value, the buffer and the world.
\<close>

definition fs_read ::
  "World \<Rightarrow> FileSystem \<Rightarrow> nat \<Rightarrow> 8 word list \<Rightarrow> nat \<Rightarrow> nat \<Rightarrow> fault + (int \<times> 8 word list \<times> World)" where
  "fs_read w fs inode_number data len offset =
     (let inp = uninit_ptr w
      in case fs_load_inode w fs inode_number inp of
           Inl e \<Rightarrow> Inl e
         | Inr (res, w1) \<Rightarrow>
             if \<not> res then Inr (- 1, data, w1)
             else Inr (- 1, data, w1))"

text \<open>\<^verbatim>\<open>fs_write(fs, inode_number, data, length, offset)\<close>: the body is \<^verbatim>\<open>return -1\<close>.\<close>

definition fs_write ::
  "World \<Rightarrow> FileSystem \<Rightarrow> nat \<Rightarrow> 8 word list \<Rightarrow> nat \<Rightarrow> nat \<Rightarrow> int \<times> World" where
  "fs_write w fs inode_number data len offset = (- 1, w)"

section \<open>Notions used to state the properties\<close>

text \<open>
  Block \<open>b\<close> of disk \<open>d\<close> can be read (written) in world \<open>w\<close>: the sanity check of
  \<^verbatim>\<open>disk.c\<close> passes for a non-null buffer and neither system call fails.
\<close>

definition readable :: "World \<Rightarrow> Disk \<Rightarrow> nat \<Rightarrow> bool" where
  "readable w d b \<longleftrightarrow>
     0 \<le> fd d \<and> b < blocks d \<and> fd d = open_fd w \<and>
     b * BLOCK_SIZE \<notin> bad_seek w \<and> b * BLOCK_SIZE \<notin> bad_read w"

definition writable :: "World \<Rightarrow> Disk \<Rightarrow> nat \<Rightarrow> bool" where
  "writable w d b \<longleftrightarrow>
     0 \<le> fd d \<and> b < blocks d \<and> fd d = open_fd w \<and>
     b * BLOCK_SIZE \<notin> bad_seek w \<and> b * BLOCK_SIZE \<notin> bad_write w"

text \<open>The world after block \<open>b\<close> was read through descriptor \<open>f\<close>, and after \<open>buf\<close> was
  written to it.\<close>

definition after_read :: "World \<Rightarrow> int \<Rightarrow> nat \<Rightarrow> World" where
  "after_read w f b =
     w\<lparr>io_log := io_log w @ [Lseek f (b * BLOCK_SIZE), Read f],
       pos := b * BLOCK_SIZE + BLOCK_SIZE\<rparr>"

definition after_write :: "World \<Rightarrow> int \<Rightarrow> nat \<Rightarrow> Block \<Rightarrow> World" where
  "after_write w f b buf =
     w\<lparr>backing := (backing w)(b := buf),
       io_log := io_log w @ [Lseek f (b * BLOCK_SIZE), Write f],
       pos := b * BLOCK_SIZE + BLOCK_SIZE\<rparr>"

text \<open>
  The entry of the free-block bitmap that \<^verbatim>\<open>fs_initialize_free_block_bitmap\<close> uses for
  block pointer \<open>p\<close> when there are \<open>ib\<close> inode blocks.
\<close>

definition bitmap_index :: "u32 \<Rightarrow> u32 \<Rightarrow> int" where
  "bitmap_index ib p = sint (p - 1 - ib)"

text \<open>
  Entry \<open>x\<close> of the bitmap is the entry of a non-zero direct pointer of the inode
  \<open>ino\<close>; of a valid inode of the inode block \<open>blk\<close>; of a valid inode of one of the
  inode blocks 1 to \<open>ib\<close> of the backing file. Neither the size of an inode nor its
  indirect pointer occurs in these notions.
\<close>

definition inode_marks :: "u32 \<Rightarrow> Inode \<Rightarrow> nat \<Rightarrow> bool" where
  "inode_marks ib ino x \<longleftrightarrow>
     (\<exists>k \<in> {0..<POINTERS_PER_INODE}.
        direct ino ! k \<noteq> 0 \<and> bitmap_index ib (direct ino ! k) = int x)"

definition block_marks :: "u32 \<Rightarrow> Block \<Rightarrow> nat \<Rightarrow> bool" where
  "block_marks ib blk x \<longleftrightarrow>
     (\<exists>j \<in> {0..<INODES_PER_BLOCK}.
        valid (inode_at blk j) \<noteq> 0 \<and> inode_marks ib (inode_at blk j) x)"

definition table_marks :: "World \<Rightarrow> u32 \<Rightarrow> nat \<Rightarrow> bool" where
  "table_marks w ib x \<longleftrightarrow> (\<exists>i \<in> {1..unat ib}. block_marks ib (backing w i) x)"

section \<open>A concrete disk image\<close>

text \<open>
  A device of 20 blocks with 2 inode blocks. Block 0 holds the superblock. Slot 0 of
  block 1 holds a valid inode of 5 bytes whose first direct pointer is block 3, the
  first data block, which holds the five bytes of the file in its first two words; every
  other word of the image is 0. The descriptor is 3, no system call fails, nothing has
  been logged and the heap is empty.
\<close>

definition zero_block :: Block where
  "zero_block = (\<lambda>k. 0)"

definition ex_super :: SuperBlock where
  "ex_super = \<lparr>magic_number = MAGIC_NUMBER, sb_blocks = 20, inode_blocks = 2, inodes = 256\<rparr>"

definition ex_inode :: Inode where
  "ex_inode = \<lparr>valid = 1, inode_size = 5, direct = [3, 0, 0, 0, 0], indirect = 0\<rparr>"

definition ex_disk :: Disk where
  "ex_disk = \<lparr>fd = 3, blocks = 20, reads = 0, writes = 0\<rparr>"

definition ex_data :: Block where
  "ex_data = zero_block(0 := 0x6c6c6568, 1 := 0x6f)"

definition ex_inode_block :: Block where
  "ex_inode_block = set_inode zero_block 0 ex_inode"

definition ex_image :: "nat \<Rightarrow> Block" where
  "ex_image b =
     (if b = 0 then set_super zero_block ex_super
      else if b = 1 then ex_inode_block
      else if b = 3 then ex_data
      else zero_block)"

definition ex_world :: World where
  "ex_world =
     \<lparr>backing = ex_image, open_fd = 3, pos = 0, bad_seek = {}, bad_read = {}, bad_write = {},
      io_log = [], uninit = zero_block, uninit_ptr = NULL, heap = (\<lambda>a. None), brk = 0\<rparr>"

definition ex_fs :: FileSystem where
  "ex_fs = \<lparr>disk = Some ex_disk, free_blocks = None, meta_data = ex_super\<rparr>"

text \<open>The same world with one inode on the heap, at address 1.\<close>

definition ex_heap_world :: World where
  "ex_heap_world = ex_world\<lparr>heap := (\<lambda>a. if a = 1 then Some ex_inode else None), brk := 1\<rparr>"

text \<open>The five bytes of \<^verbatim>\<open>hello\<close>, and a buffer of five zero bytes.\<close>

definition ex_hello :: "8 word list" where
  "ex_hello = [104, 101, 108, 108, 111]"

definition ex_buf :: "8 word list" where
  "ex_buf = [0, 0, 0, 0, 0]"

text \<open>A file system handle that has not been mounted yet.\<close>

definition ex_unmounted :: FileSystem where
  "ex_unmounted =
     \<lparr>disk = None, free_blocks = None,
      meta_data = \<lparr>magic_number = 0, sb_blocks = 0, inode_blocks = 0, inodes = 0\<rparr>\<rparr>"

text \<open>
  A second image of the same device with a file of 20481 bytes: slot 0 of block 1
  holds a valid inode with the direct pointers 3 to 7 and the indirect pointer 8, and
  block 8, the indirect block, has the one entry 9.
\<close>

definition ex_big_inode :: Inode where
  "ex_big_inode = \<lparr>valid = 1, inode_size = 20481, direct = [3, 4, 5, 6, 7], indirect = 8\<rparr>"

definition ex_big_inode_block :: Block where
  "ex_big_inode_block = set_inode zero_block 0 ex_big_inode"

definition ex_indirect_block :: Block where
  "ex_indirect_block = zero_block(0 := 9)"

definition ex_big_image :: "nat \<Rightarrow> Block" where
  "ex_big_image b =
     (if b = 0 then set_super zero_block ex_super
      else if b = 1 then ex_big_inode_block
      else if b = 8 then ex_indirect_block
      else zero_block)"

definition ex_big_world :: World where
  "ex_big_world = ex_world\<lparr>backing := ex_big_image\<rparr>"

section \<open>Properties of the block device\<close>

text \<open>
  Claim C9. Whenever the disk handle is null or has a negative file descriptor, or the
  block index is not below the device's block count, or the buffer is null, both
  \<^verbatim>\<open>disk_read\<close> and \<^verbatim>\<open>disk_write\<close> return \<^verbatim>\<open>DISK_FAILURE\<close> and leave the world, and so the
  log of system calls and the backing file, exactly as it was; \<^verbatim>\<open>disk_read\<close> leaves the
  buffer untouched as well.
\<close>

theorem disk_rejects_without_io:
  assumes "dk = None \<or> (\<exists>d. dk = Some d \<and> (fd d < 0 \<or> blocks d \<le> block)) \<or> data = None"
  shows "disk_read w dk block data = (DISK_FAILURE, data, w)
       \<and> disk_write w dk block data = (DISK_FAILURE, w)"
proof -
  from assms have "\<not> disk_sanity_check dk block data"
    by (auto simp: disk_sanity_check_def split: option.splits)
  then show ?thesis
    by (simp add: disk_read_def disk_write_def)
qed

theorem disk_rejects_without_io_witness:
  "(Some ex_disk = None
      \<or> (\<exists>d. Some ex_disk = Some d \<and> (fd d < 0 \<or> blocks d \<le> 20))
      \<or> Some zero_block = None)
   \<and> disk_read ex_world (Some ex_disk) 20 (Some zero_block)
       = (DISK_FAILURE, Some zero_block, ex_world)
   \<and> disk_write ex_world (Some ex_disk) 20 (Some zero_block) = (DISK_FAILURE, ex_world)"
proof -
  have h: "Some ex_disk = None
      \<or> (\<exists>d. Some ex_disk = Some d \<and> (fd d < 0 \<or> blocks d \<le> 20))
      \<or> Some zero_block = None"
    by (simp add: ex_disk_def)
  from disk_rejects_without_io [OF h, of ex_world] h show ?thesis
    by blast
qed

section \<open>The block device seen from fs.c\<close>

lemma read_block_ok:
  assumes "readable w d b"
  shows "read_block w (Some d) b blk = (int BLOCK_SIZE, backing w b, after_read w (fd d) b)"
  using assms
  by (simp add: readable_def read_block_def disk_read_def disk_sanity_check_def
      sys_lseek_def sys_read_def after_read_def Let_def BLOCK_SIZE_def)

lemma read_block_fail:
  assumes "\<not> readable w d b"
  shows "fst (read_block w (Some d) b blk) = DISK_FAILURE"
  using assms
  by (auto simp: readable_def read_block_def disk_read_def disk_sanity_check_def
      sys_lseek_def sys_read_def Let_def BLOCK_SIZE_def DISK_FAILURE_def split: prod.splits)

lemma disk_write_ok:
  assumes "writable w d b"
  shows "disk_write w (Some d) b (Some buf) = (int BLOCK_SIZE, after_write w (fd d) b buf)"
  using assms
  by (simp add: writable_def disk_write_def disk_sanity_check_def
      sys_lseek_def sys_write_def after_write_def Let_def BLOCK_SIZE_def)

lemma block_size_not_failure: "int BLOCK_SIZE \<noteq> DISK_FAILURE"
  by (simp add: BLOCK_SIZE_def DISK_FAILURE_def)

lemma readable_after_read [simp]: "readable (after_read w f b) d b' = readable w d b'"
  by (simp add: readable_def after_read_def)

lemma backing_after_read [simp]: "backing (after_read w f b) = backing w"
  by (simp add: after_read_def)

lemma uninit_after_read [simp]: "uninit (after_read w f b) = uninit w"
  by (simp add: after_read_def)

lemma heap_after_read [simp]: "heap (after_read w f b) = heap w"
  by (simp add: after_read_def)

lemma brk_after_read [simp]: "brk (after_read w f b) = brk w"
  by (simp add: after_read_def)

lemma io_log_after_read [simp]:
  "io_log (after_read w f b) = io_log w @ [Lseek f (b * BLOCK_SIZE), Read f]"
  by (simp add: after_read_def)

lemma read_block_frame:
  assumes "read_block w dk i blk = (r, b, w')"
  shows "heap w' = heap w \<and> brk w' = brk w \<and> uninit_ptr w' = uninit_ptr w
       \<and> uninit w' = uninit w \<and> backing w' = backing w"
  using assms
  by (auto simp: read_block_def disk_read_def sys_lseek_def sys_read_def Let_def
      split: if_splits option.splits prod.splits)

lemma writable_after_write [simp]: "writable (after_write w f b buf) d b' = writable w d b'"
  by (simp add: writable_def after_write_def)

lemma readable_after_write [simp]: "readable (after_write w f b buf) d b' = readable w d b'"
  by (simp add: readable_def after_write_def)

lemma io_log_after_write [simp]:
  "io_log (after_write w f b buf) = io_log w @ [Lseek f (b * BLOCK_SIZE), Write f]"
  by (simp add: after_write_def)

lemma uninit_after_write [simp]: "uninit (after_write w f b buf) = uninit w"
  by (simp add: after_write_def)

section \<open>The inode table: fs\_load\_inode and fs\_save\_inode\<close>

lemma inode_slot: "n - INODES_PER_BLOCK * (n div INODES_PER_BLOCK) = n mod INODES_PER_BLOCK"
  by (simp add: minus_mult_div_eq_mod)

lemma load_inode_readable:
  assumes "disk fs = Some d" and "readable w d (n div INODES_PER_BLOCK)"
  shows "fs_load_inode w fs n NULL =
     (let w1 = after_read w (fd d) (n div INODES_PER_BLOCK);
          ino = inode_at (backing w (n div INODES_PER_BLOCK)) (n mod INODES_PER_BLOCK)
      in if valid ino = 0 then Inr (False, w1)
         else Inr (True, w1\<lparr>heap := (heap w1)(Suc (brk w1) := Some ino), brk := Suc (brk w1)\<rparr>))"
  using assms
  by (simp add: fs_load_inode_def read_block_ok block_size_not_failure inode_slot Let_def)

lemma save_inode_readable:
  assumes "disk fs = Some d" and "readable w d (n div INODES_PER_BLOCK)"
    and "writable w d (n div INODES_PER_BLOCK)"
    and "node \<noteq> NULL" and "heap w node = Some ino"
  shows "fs_save_inode w fs n node =
     Inr (True, after_write (after_read w (fd d) (n div INODES_PER_BLOCK)) (fd d)
                  (n div INODES_PER_BLOCK)
                  (set_inode (backing w (n div INODES_PER_BLOCK)) (n mod INODES_PER_BLOCK) ino))"
proof -
  have wr: "writable (after_read w (fd d) (n div INODES_PER_BLOCK)) d (n div INODES_PER_BLOCK)"
    using assms(3) by (simp add: writable_def after_read_def)
  show ?thesis
    using assms
    by (simp add: fs_save_inode_def read_block_ok block_size_not_failure inode_slot Let_def
        deref_def disk_write_ok [OF wr])
qed

lemma load_inode_true:
  assumes "fs_load_inode w fs n node = Inr (True, w1)"
  shows "node = NULL \<and> heap w1 (Suc (brk w)) \<noteq> None \<and> deref w1 node = None"
  using assms
  by (auto simp: fs_load_inode_def Let_def deref_def split: if_splits prod.splits
      dest!: read_block_frame)

subsection \<open>The concrete image\<close>

lemma ex_readable: "b < 20 \<Longrightarrow> readable ex_world ex_disk b"
  by (simp add: readable_def ex_world_def ex_disk_def)

lemma ex_heap_readable: "b < 20 \<Longrightarrow> readable ex_heap_world ex_disk b"
  by (simp add: readable_def ex_heap_world_def ex_world_def ex_disk_def)

lemma ex_heap_writable: "b < 20 \<Longrightarrow> writable ex_heap_world ex_disk b"
  by (simp add: writable_def ex_heap_world_def ex_world_def ex_disk_def)

lemma ex_superblock_slot_valid: "valid (inode_at (ex_image 0) 0) \<noteq> 0"
  by (simp add: inode_at_def ex_image_def set_super_def ex_super_def MAGIC_NUMBER_def)

lemma ex_load_0: "\<exists>w1. fs_load_inode ex_world ex_fs 0 NULL = Inr (True, w1)"
proof -
  have d: "disk ex_fs = Some ex_disk" by (simp add: ex_fs_def)
  have r: "readable ex_world ex_disk (0 div INODES_PER_BLOCK)" by (simp add: ex_readable)
  have b: "backing ex_world = ex_image" by (simp add: ex_world_def)
  show ?thesis
    using ex_superblock_slot_valid
    by (simp add: load_inode_readable [OF d r] Let_def b)
qed

subsection \<open>Which block holds inode n\<close>

text \<open>
  Claim C2, as the code has it. When the block can be read and written,
  \<^verbatim>\<open>fs_load_inode\<close> and \<^verbatim>\<open>fs_save_inode\<close> seek to block \<open>n div INODES_PER_BLOCK\<close>, without
  the 1 that the claim adds for the superblock, and use slot \<open>n mod INODES_PER_BLOCK\<close>
  of it: the load returns whether that slot's \<open>valid\<close> field is not 0, and the save
  stores the inode into that slot of that block.
\<close>

theorem inode_table_addressing:
  assumes "disk fs = Some d"
    and "readable w d (n div INODES_PER_BLOCK)"
    and "writable w d (n div INODES_PER_BLOCK)"
    and "node \<noteq> NULL" and "heap w node = Some ino"
  shows "(\<exists>r w'. fs_load_inode w fs n NULL = Inr (r, w')
            \<and> io_log w' = io_log w @ [Lseek (fd d) (n div INODES_PER_BLOCK * BLOCK_SIZE),
                                        Read (fd d)]
            \<and> r = (valid (inode_at (backing w (n div INODES_PER_BLOCK))
                                      (n mod INODES_PER_BLOCK)) \<noteq> 0))
       \<and> (\<exists>w'. fs_save_inode w fs n node = Inr (True, w')
            \<and> io_log w' = io_log w @ [Lseek (fd d) (n div INODES_PER_BLOCK * BLOCK_SIZE),
                                        Read (fd d),
                                        Lseek (fd d) (n div INODES_PER_BLOCK * BLOCK_SIZE),
                                        Write (fd d)]
            \<and> backing w' = (backing w)(n div INODES_PER_BLOCK :=
                  set_inode (backing w (n div INODES_PER_BLOCK)) (n mod INODES_PER_BLOCK) ino))"
proof -
  have "\<exists>r w'. fs_load_inode w fs n NULL = Inr (r, w')
            \<and> io_log w' = io_log w @ [Lseek (fd d) (n div INODES_PER_BLOCK * BLOCK_SIZE),
                                        Read (fd d)]
            \<and> r = (valid (inode_at (backing w (n div INODES_PER_BLOCK))
                                      (n mod INODES_PER_BLOCK)) \<noteq> 0)"
    by (simp add: load_inode_readable [OF assms(1,2)] Let_def)
  moreover have "\<exists>w'. fs_save_inode w fs n node = Inr (True, w')
            \<and> io_log w' = io_log w @ [Lseek (fd d) (n div INODES_PER_BLOCK * BLOCK_SIZE),
                                        Read (fd d),
                                        Lseek (fd d) (n div INODES_PER_BLOCK * BLOCK_SIZE),
                                        Write (fd d)]
            \<and> backing w' = (backing w)(n div INODES_PER_BLOCK :=
                  set_inode (backing w (n div INODES_PER_BLOCK)) (n mod INODES_PER_BLOCK) ino)"
    by (simp add: save_inode_readable [OF assms] after_write_def)
  ultimately show ?thesis by blast
qed

text \<open>Inode 0 on the concrete image: both functions work on block 0, the superblock. The
  load finds the magic number where it looks for \<open>valid\<close> and returns true; the save
  writes the inode over the first 32 bytes of the superblock.\<close>

theorem inode_table_addressing_witness:
  "(\<exists>r w'. fs_load_inode ex_heap_world ex_fs 0 NULL = Inr (r, w')
       \<and> io_log w' = [Lseek 3 0, Read 3] \<and> r = True)
   \<and> (\<exists>w'. fs_save_inode ex_heap_world ex_fs 0 1 = Inr (True, w')
       \<and> io_log w' = [Lseek 3 0, Read 3, Lseek 3 0, Write 3]
       \<and> backing w' = ex_image(0 := set_inode (ex_image 0) 0 ex_inode))"
proof -
  have d: "disk ex_fs = Some ex_disk" by (simp add: ex_fs_def)
  have r: "readable ex_heap_world ex_disk (0 div INODES_PER_BLOCK)"
    by (simp add: ex_heap_readable)
  have wr: "writable ex_heap_world ex_disk (0 div INODES_PER_BLOCK)"
    by (simp add: ex_heap_writable)
  have n: "(1::nat) \<noteq> NULL" by (simp add: NULL_def)
  have h: "heap ex_heap_world 1 = Some ex_inode" by (simp add: ex_heap_world_def)
  have b: "backing ex_heap_world = ex_image" "io_log ex_heap_world = []" "fd ex_disk = 3"
    by (simp_all add: ex_heap_world_def ex_world_def ex_disk_def)
  from inode_table_addressing [OF d r wr n h] ex_superblock_slot_valid show ?thesis
    by (simp add: b)
qed

subsection \<open>Inode numbers beyond the inode table\<close>

text \<open>
  Claim C8 fails on the code. The concrete file system has 256 inodes, yet
  \<^verbatim>\<open>fs_load_inode\<close> with inode number 384 seeks to block 3 and reads it, finds a non-zero
  word of file data where it looks for \<open>valid\<close>, and returns true.
\<close>

theorem load_inode_beyond_inodes_counterexample:
  "unat (inodes (meta_data ex_fs)) = 256
   \<and> (256::nat) \<le> 384
   \<and> fs_load_inode ex_world ex_fs 384 NULL
       = Inr (True, (after_read ex_world 3 3)\<lparr>heap := (heap ex_world)(1 := Some (inode_at ex_data 0)),
                                                 brk := 1\<rparr>)
   \<and> io_log (after_read ex_world 3 3) = [Lseek 3 (3 * BLOCK_SIZE), Read 3]"
proof -
  have d: "disk ex_fs = Some ex_disk" by (simp add: ex_fs_def)
  have r: "readable ex_world ex_disk (384 div INODES_PER_BLOCK)"
    by (simp add: ex_readable INODES_PER_BLOCK_def)
  have v: "valid (inode_at ex_data 0) \<noteq> 0"
    by (simp add: inode_at_def ex_data_def)
  have b: "backing ex_world 3 = ex_data" "brk ex_world = 0" "io_log ex_world = []"
    "fd ex_disk = 3"
    by (simp_all add: ex_world_def ex_image_def ex_disk_def)
  have "fs_load_inode ex_world ex_fs 384 NULL
       = Inr (True, (after_read ex_world 3 3)\<lparr>heap := (heap ex_world)(1 := Some (inode_at ex_data 0)),
                                                 brk := 1\<rparr>)"
    using v by (simp add: load_inode_readable [OF d r] Let_def INODES_PER_BLOCK_def b)
  then show ?thesis
    by (simp add: ex_fs_def ex_super_def b)
qed

text \<open>
  Claim C8, amended. \<^verbatim>\<open>fs_load_inode\<close> never compares the inode number with the inode
  count of the superblock; the only range check is the one of the device. For every
  inode number \<open>n\<close> of at least \<open>INODES_PER_BLOCK\<close> times the device's block count, it
  returns false and leaves the world as it was, so no system call is issued.
\<close>

theorem load_inode_rejects_beyond_device:
  assumes "disk fs = Some d" and "INODES_PER_BLOCK * blocks d \<le> n"
  shows "fs_load_inode w fs n NULL = Inr (False, w)"
proof -
  have "blocks d \<le> n div INODES_PER_BLOCK"
    using assms(2) by (simp add: INODES_PER_BLOCK_def)
  then have "\<not> disk_sanity_check (Some d) (n div INODES_PER_BLOCK) (Some (uninit w))"
    by (simp add: disk_sanity_check_def)
  then show ?thesis
    using assms(1) by (simp add: fs_load_inode_def read_block_def disk_read_def Let_def)
qed

theorem load_inode_rejects_beyond_device_witness:
  "disk ex_fs = Some ex_disk
   \<and> INODES_PER_BLOCK * blocks ex_disk \<le> 2560
   \<and> fs_load_inode ex_world ex_fs 2560 NULL = Inr (False, ex_world)"
proof -
  have d: "disk ex_fs = Some ex_disk" by (simp add: ex_fs_def)
  have n: "INODES_PER_BLOCK * blocks ex_disk \<le> 2560"
    by (simp add: INODES_PER_BLOCK_def ex_disk_def)
  from load_inode_rejects_beyond_device [OF d n] d n show ?thesis
    by simp
qed

subsection \<open>The pointer parameter of fs\_load\_inode\<close>

lemma remove_body_null: "fs_remove_body w fs n NULL = Inl SegFault"
  by (simp add: fs_remove_body_def remove_direct.simps [of w fs NULL 0] deref_def
      POINTERS_PER_INODE_def)

lemma stat_body_null: "fs_stat_body w NULL = Inl SegFault"
  by (simp add: fs_stat_body_def deref_def)

text \<open>
  Claim C10. \<^verbatim>\<open>fs_load_inode\<close> receives the caller's pointer by value. When it returns
  true, that pointer was null (the assertion), the loaded inode sits in a fresh heap
  cell that only the function's own parameter referred to, and the caller's pointer
  still refers to no inode. Each caller goes on with the pointer it passed:
  \<^verbatim>\<open>fs_remove\<close> runs its loops on the null pointer and stops at the first dereference;
  \<^verbatim>\<open>fs_stat\<close>, when its uninitialised pointer is the value passed, stops at
  \<^verbatim>\<open>in->size\<close> in the same way; \<^verbatim>\<open>fs_read\<close> returns -1 with the buffer untouched.
\<close>

theorem load_inode_binds_local_only:
  assumes "fs_load_inode w fs n node = Inr (True, w1)"
  shows "node = NULL \<and> heap w1 (Suc (brk w)) \<noteq> None \<and> deref w1 node = None
       \<and> fs_remove w fs n = fs_remove_body w1 fs n node
       \<and> fs_remove w fs n = Inl SegFault
       \<and> (uninit_ptr w = node \<longrightarrow>
            fs_stat w fs n = fs_stat_body w1 node
          \<and> fs_stat w fs n = Inl SegFault
          \<and> fs_read w fs n data len off = Inr (- 1, data, w1))"
proof -
  from load_inode_true [OF assms] have n: "node = NULL"
    and h: "heap w1 (Suc (brk w)) \<noteq> None" and d: "deref w1 node = None"
    by blast+
  from assms n have l: "fs_load_inode w fs n NULL = Inr (True, w1)" by simp
  have r: "fs_remove w fs n = fs_remove_body w1 fs n node"
    using l n by (simp add: fs_remove_def)
  have s: "uninit_ptr w = node \<Longrightarrow> fs_stat w fs n = fs_stat_body w1 node"
    using l n by (simp add: fs_stat_def)
  have rd: "uninit_ptr w = node \<Longrightarrow> fs_read w fs n data len off = Inr (- 1, data, w1)"
    using l n by (simp add: fs_read_def)
  show ?thesis
    using n h d r s rd by (simp add: remove_body_null stat_body_null)
qed

text \<open>Inode 0 of the concrete image, with a null uninitialised pointer.\<close>

theorem load_inode_binds_local_only_witness:
  "\<exists>w1. fs_load_inode ex_world ex_fs 0 NULL = Inr (True, w1)
     \<and> heap w1 (Suc (brk ex_world)) \<noteq> None \<and> deref w1 NULL = None
     \<and> fs_remove ex_world ex_fs 0 = Inl SegFault
     \<and> fs_stat ex_world ex_fs 0 = Inl SegFault
     \<and> fs_read ex_world ex_fs 0 ex_buf 5 0 = Inr (- 1, ex_buf, w1)"
proof -
  from ex_load_0 obtain w1 where l: "fs_load_inode ex_world ex_fs 0 NULL = Inr (True, w1)"
    by blast
  have u: "uninit_ptr ex_world = NULL" by (simp add: ex_world_def)
  from load_inode_binds_local_only [OF l, of ex_buf 5 0] l u show ?thesis
    by (simp add: remove_body_null stat_body_null)
qed

section \<open>fs\_remove\<close>

text \<open>
  Claim C3, as the code has it. \<^verbatim>\<open>fs_remove\<close> never returns true: when the inode is
  valid, so that \<^verbatim>\<open>fs_load_inode\<close> returns true, the first loop dereferences the null
  pointer \<^verbatim>\<open>in\<close> and the run ends in a fault; no bitmap entry is cleared and the inode
  stays valid on disk.
\<close>

theorem remove_never_succeeds:
  "(fs_load_inode w fs n NULL = Inr (True, w1) \<longrightarrow> fs_remove w fs n = Inl SegFault)
   \<and> fs_remove w fs n \<noteq> Inr (True, fs', w')"
  by (auto simp: fs_remove_def remove_body_null split: sum.splits)

theorem remove_never_succeeds_witness:
  "\<exists>w1. fs_load_inode ex_world ex_fs 0 NULL = Inr (True, w1)
     \<and> fs_remove ex_world ex_fs 0 = Inl SegFault"
proof -
  from ex_load_0 obtain w1 where l: "fs_load_inode ex_world ex_fs 0 NULL = Inr (True, w1)"
    by blast
  from remove_never_succeeds [of ex_world ex_fs 0 w1] l show ?thesis
    by blast
qed

section \<open>fs\_read and fs\_write\<close>

text \<open>
  Claim C1, as the code has it. \<^verbatim>\<open>fs_write\<close> returns -1 and changes nothing, whatever
  its arguments, and \<^verbatim>\<open>fs_read\<close> never returns the length with the bytes written in
  the buffer.
\<close>

theorem write_then_read_fails:
  "fs_write w fs n s (length s) 0 = (- 1, w)
   \<and> fs_read w fs n buf (length s) 0 \<noteq> Inr (int (length s), s, w')"
  by (auto simp: fs_write_def fs_read_def Let_def split: sum.splits if_splits)

theorem write_then_read_fails_witness:
  "fs_write ex_world ex_fs 0 ex_hello 5 0 = (- 1, ex_world)
   \<and> fs_read ex_world ex_fs 0 ex_buf 5 0 \<noteq> Inr (5, ex_hello, ex_world)"
proof -
  have len: "length ex_hello = 5" by (simp add: ex_hello_def)
  from write_then_read_fails [of ex_world ex_fs 0 ex_hello ex_buf ex_world] show ?thesis
    unfolding len by simp
qed

text \<open>
  Claim C6, as the code has it. Whenever \<^verbatim>\<open>fs_read\<close> returns, it returns -1 and the
  buffer is as it was: neither 0 for an offset at or beyond the size nor the clamped
  length otherwise.
\<close>

theorem read_never_returns_count:
  assumes "fs_read w fs n data len off = Inr (r, data', w')"
  shows "r = - 1 \<and> data' = data"
  using assms
  by (auto simp: fs_read_def Let_def split: sum.splits if_splits)

lemma ex_read_0: "\<exists>w1. fs_read ex_world ex_fs 0 data len off = Inr (- 1, data, w1)"
proof -
  from ex_load_0 obtain w1 where l: "fs_load_inode ex_world ex_fs 0 NULL = Inr (True, w1)"
    by blast
  have u: "uninit_ptr ex_world = NULL" by (simp add: ex_world_def)
  show ?thesis by (simp add: fs_read_def u l)
qed

text \<open>Inode 0 of the concrete image has 5 bytes; reading 5 bytes at offset 0 and at
  offset 5 both return -1.\<close>

theorem read_never_returns_count_witness:
  "(\<exists>r data' w'. fs_read ex_world ex_fs 0 ex_buf 5 0 = Inr (r, data', w')
       \<and> r = - 1 \<and> data' = ex_buf)
   \<and> (\<exists>r data' w'. fs_read ex_world ex_fs 0 ex_buf 5 5 = Inr (r, data', w')
       \<and> r = - 1 \<and> data' = ex_buf)"
proof -
  from ex_read_0 obtain w1 where a: "fs_read ex_world ex_fs 0 ex_buf 5 0 = Inr (- 1, ex_buf, w1)"
    by blast
  from ex_read_0 obtain w2 where b: "fs_read ex_world ex_fs 0 ex_buf 5 5 = Inr (- 1, ex_buf, w2)"
    by blast
  from read_never_returns_count [OF a] read_never_returns_count [OF b] a b show ?thesis
    by blast
qed

section \<open>fs\_create\<close>

lemma create_loop_read_ok:
  assumes "disk fs = Some d" and "readable w d i" and "i \<le> unat (inode_blocks (meta_data fs))"
  shows "create_loop w fs i = Inr (- 1, after_read w (fd d) i)"
  using assms
  by (simp add: create_loop.simps [of w fs i] read_block_ok block_size_not_failure)

text \<open>
  Claim C4, as the code has it. When the file system has at least one inode block and
  block 1 can be read, \<^verbatim>\<open>fs_create\<close> returns -1 right after that read: no slot is
  examined and nothing is written, whether or not a slot is free.
\<close>

theorem create_fails_when_read_succeeds:
  assumes "disk fs = Some d" and "readable w d 1" and "1 \<le> unat (inode_blocks (meta_data fs))"
  shows "fs_create w fs = Inr (- 1, after_read w (fd d) 1)"
  using assms by (simp add: fs_create_def create_loop_read_ok)

text \<open>On the concrete image slot 1 of block 1 is free, and \<^verbatim>\<open>fs_create\<close> returns -1
  after a single read.\<close>

theorem create_fails_when_read_succeeds_witness:
  "valid (inode_at (backing ex_world 1) 1) = 0
   \<and> fs_create ex_world ex_fs = Inr (- 1, after_read ex_world 3 1)
   \<and> io_log (after_read ex_world 3 1) = [Lseek 3 (1 * BLOCK_SIZE), Read 3]"
proof -
  have d: "disk ex_fs = Some ex_disk" by (simp add: ex_fs_def)
  have r: "readable ex_world ex_disk 1" by (simp add: ex_readable)
  have i: "1 \<le> unat (inode_blocks (meta_data ex_fs))" by (simp add: ex_fs_def ex_super_def)
  have v: "valid (inode_at (backing ex_world 1) 1) = 0"
    by (simp add: inode_at_def ex_world_def ex_image_def ex_inode_block_def set_inode_def
        zero_block_def)
  have f: "fd ex_disk = 3" "io_log ex_world = []" by (simp_all add: ex_disk_def ex_world_def)
  from create_fails_when_read_succeeds [OF d r i] v show ?thesis
    by (simp add: f)
qed

section \<open>The free-block bitmap built at mount\<close>

lemma array_store_length [simp]: "length (array_store fb idx v) = length fb"
  by (simp add: array_store_def)

lemma array_store_True_nth:
  assumes "x < length fb"
  shows "array_store fb idx True ! x = (fb ! x \<or> idx = int x)"
proof (cases "0 \<le> idx \<and> nat idx < length fb")
  case True
  then have "(nat idx = x) = (idx = int x)" by auto
  with True assms show ?thesis
    by (simp add: array_store_def nth_list_update)
next
  case False
  with assms have "idx \<noteq> int x" by auto
  moreover from False have "array_store fb idx True = fb" by (auto simp: array_store_def)
  ultimately show ?thesis by simp
qed

lemma Bex_from:
  "(\<exists>k \<in> {p..<n}. Q k) \<longleftrightarrow> p < n \<and> (Q p \<or> (\<exists>k \<in> {Suc p..<n}. Q k))"
proof (cases "p < n")
  case True
  then have "{p..<n} = insert p {Suc p..<n}" by auto
  with True show ?thesis by simp
next
  case False
  then show ?thesis by simp
qed

lemma bitmap_direct_length [simp]: "length (bitmap_direct ib ino p fb) = length fb"
proof (induction ib ino p fb rule: bitmap_direct.induct)
  case (1 ib ino ptr fb)
  show ?case
  proof (cases "ptr < POINTERS_PER_INODE")
    case False
    then show ?thesis by (simp add: bitmap_direct.simps [of ib ino ptr fb])
  next
    case True
    show ?thesis
    proof (cases "direct ino ! ptr = 0")
      case z: True
      with True "1.IH"(2) show ?thesis
        by (simp add: bitmap_direct.simps [of ib ino ptr fb])
    next
      case nz: False
      from "1.IH"(1) [OF True nz refl] True nz show ?thesis
        by (simp add: bitmap_direct.simps [of ib ino ptr fb] Let_def)
    qed
  qed
qed

lemma bitmap_direct_nth:
  assumes "x < length fb"
  shows "bitmap_direct ib ino p fb ! x =
     (fb ! x \<or> (\<exists>k \<in> {p..<POINTERS_PER_INODE}.
                   direct ino ! k \<noteq> 0 \<and> bitmap_index ib (direct ino ! k) = int x))"
  using assms
proof (induction ib ino p fb rule: bitmap_direct.induct)
  case (1 ib ino ptr fb)
  let ?Q = "\<lambda>k. direct ino ! k \<noteq> 0 \<and> bitmap_index ib (direct ino ! k) = int x"
  note split = Bex_from [of ptr POINTERS_PER_INODE ?Q]
  show ?case
  proof (cases "ptr < POINTERS_PER_INODE")
    case False
    then show ?thesis
      by (simp add: bitmap_direct.simps [of ib ino ptr fb] split)
  next
    case True
    show ?thesis
    proof (cases "direct ino ! ptr = 0")
      case z: True
      from True z have u: "bitmap_direct ib ino ptr fb = bitmap_direct ib ino (Suc ptr) fb"
        by (simp add: bitmap_direct.simps [of ib ino ptr fb])
      have nz': "\<not> direct ino ! ptr \<noteq> 0" using z by simp
      from "1.IH"(2) [OF True nz' "1.prems"] True z show ?thesis
        unfolding u split by simp
    next
      case nz: False
      define idx where "idx = sint (direct ino ! ptr - 1 - ib)"
      from True nz have u: "bitmap_direct ib ino ptr fb
          = bitmap_direct ib ino (Suc ptr) (array_store fb idx True)"
        by (simp add: bitmap_direct.simps [of ib ino ptr fb] Let_def idx_def)
      have l: "x < length (array_store fb idx True)" using "1.prems" by simp
      have here: "array_store fb idx True ! x = (fb ! x \<or> bitmap_index ib (direct ino ! ptr) = int x)"
        using "1.prems" by (simp add: array_store_True_nth idx_def bitmap_index_def)
      from "1.IH"(1) [OF True nz idx_def l] True nz show ?thesis
        unfolding u split here by blast
    qed
  qed
qed

lemma Bex_from_upto:
  "(\<exists>k \<in> {p..n}. Q k) \<longleftrightarrow> p \<le> n \<and> (Q p \<or> (\<exists>k \<in> {Suc p..n}. Q k))"
proof (cases "p \<le> n")
  case True
  then have "{p..n} = insert p {Suc p..n}" by auto
  with True show ?thesis by simp
next
  case False
  then show ?thesis by simp
qed

lemma bitmap_inodes_length [simp]: "length (bitmap_inodes ib blk j fb) = length fb"
proof (induction ib blk j fb rule: bitmap_inodes.induct)
  case (1 ib blk j fb)
  show ?case
  proof (cases "j < INODES_PER_BLOCK")
    case False
    then show ?thesis by (simp add: bitmap_inodes.simps [of ib blk j fb])
  next
    case True
    show ?thesis
    proof (cases "valid (inode_at blk j) = 0")
      case z: True
      from "1.IH"(1) [OF True refl z] True z show ?thesis
        by (simp add: bitmap_inodes.simps [of ib blk j fb])
    next
      case nz: False
      from "1.IH"(2) [OF True refl nz] True nz show ?thesis
        by (simp add: bitmap_inodes.simps [of ib blk j fb] Let_def)
    qed
  qed
qed

lemma bitmap_inodes_nth:
  assumes "x < length fb"
  shows "bitmap_inodes ib blk j fb ! x =
     (fb ! x \<or> (\<exists>j' \<in> {j..<INODES_PER_BLOCK}.
                   valid (inode_at blk j') \<noteq> 0 \<and> inode_marks ib (inode_at blk j') x))"
  using assms
proof (induction ib blk j fb rule: bitmap_inodes.induct)
  case (1 ib blk j fb)
  let ?Q = "\<lambda>j'. valid (inode_at blk j') \<noteq> 0 \<and> inode_marks ib (inode_at blk j') x"
  note split = Bex_from [of j INODES_PER_BLOCK ?Q]
  show ?case
  proof (cases "j < INODES_PER_BLOCK")
    case False
    then show ?thesis
      by (simp add: bitmap_inodes.simps [of ib blk j fb] split)
  next
    case True
    show ?thesis
    proof (cases "valid (inode_at blk j) = 0")
      case z: True
      from True z have u: "bitmap_inodes ib blk j fb = bitmap_inodes ib blk (Suc j) fb"
        by (simp add: bitmap_inodes.simps [of ib blk j fb])
      from "1.IH"(1) [OF True refl z "1.prems"] True z show ?thesis
        unfolding u split by simp
    next
      case nz: False
      let ?fb1 = "bitmap_direct ib (inode_at blk j) 0 fb"
      from True nz have u: "bitmap_inodes ib blk j fb = bitmap_inodes ib blk (Suc j) ?fb1"
        by (simp add: bitmap_inodes.simps [of ib blk j fb] Let_def)
      have l: "x < length ?fb1" using "1.prems" by simp
      have here: "?fb1 ! x = (fb ! x \<or> inode_marks ib (inode_at blk j) x)"
        using "1.prems" by (simp add: bitmap_direct_nth inode_marks_def)
      from "1.IH"(2) [OF True refl nz l] True nz show ?thesis
        unfolding u split here by blast
    qed
  qed
qed

lemma bitmap_blocks_exact:
  assumes "disk fs = Some d"
    and "\<forall>i'. i \<le> i' \<and> i' \<le> unat (inode_blocks (meta_data fs)) \<longrightarrow> readable w d i'"
    and "unat (inode_blocks (meta_data fs)) < INT_MAX"
  shows "\<exists>fb' w'. bitmap_blocks w fs i fb = Inr (Some fb', w')
       \<and> length fb' = length fb
       \<and> (\<forall>x. x < length fb \<longrightarrow>
            fb' ! x = (fb ! x \<or> (\<exists>i' \<in> {i..unat (inode_blocks (meta_data fs))}.
                                     block_marks (inode_blocks (meta_data fs)) (backing w i') x)))"
  using assms
proof (induction w fs i fb rule: bitmap_blocks.induct)
  case (1 w fs i fb)
  let ?ib = "inode_blocks (meta_data fs)"
  show ?case
  proof (cases "i \<le> unat ?ib")
    case False
    then have "bitmap_blocks w fs i fb = Inr (Some fb, w)"
      by (simp add: bitmap_blocks.simps [of w fs i fb])
    moreover from False have "{i..unat ?ib} = {}" by simp
    ultimately show ?thesis by simp
  next
    case True
    note le = True
    with "1.prems"(2) have rd: "readable w d i" by simp
    from le "1.prems"(3) have ni: "i \<noteq> INT_MAX" by simp
    define w1 where "w1 = after_read w (fd d) i"
    define fb1 where "fb1 = bitmap_inodes ?ib (backing w i) 0 fb"
    have rb: "read_block w (disk fs) i (uninit w) = (int BLOCK_SIZE, backing w i, w1)"
      using rd "1.prems"(1) by (simp add: read_block_ok w1_def)
    have u: "bitmap_blocks w fs i fb = bitmap_blocks w1 fs (Suc i) fb1"
      using le ni
      by (simp add: bitmap_blocks.simps [of w fs i fb] rb block_size_not_failure Let_def fb1_def)
    have rd1: "\<forall>i'. Suc i \<le> i' \<and> i' \<le> unat ?ib \<longrightarrow> readable w1 d i'"
      using "1.prems"(2) by (simp add: w1_def)
    have bw: "backing w1 = backing w" by (simp add: w1_def)
    note ih = "1.IH" [OF le rb [symmetric] refl block_size_not_failure fb1_def ni
        "1.prems"(1) rd1 "1.prems"(3), unfolded bw]
    from ih obtain fb' w' where
      r: "bitmap_blocks w1 fs (Suc i) fb1 = Inr (Some fb', w')"
      and len1: "length fb' = length fb1"
      and nth1: "\<forall>x. x < length fb1 \<longrightarrow>
            fb' ! x = (fb1 ! x \<or> (\<exists>i' \<in> {Suc i..unat ?ib}. block_marks ?ib (backing w i') x))"
      by (elim exE conjE)
    have len0: "length fb1 = length fb" by (simp add: fb1_def)
    have nth: "\<forall>x. x < length fb \<longrightarrow>
            fb' ! x = (fb ! x \<or> (\<exists>i' \<in> {i..unat ?ib}. block_marks ?ib (backing w i') x))"
    proof (intro allI impI)
      fix x assume x: "x < length fb"
      have here: "fb1 ! x = (fb ! x \<or> block_marks ?ib (backing w i) x)"
        using x by (simp add: fb1_def bitmap_inodes_nth block_marks_def)
      from x len0 nth1 have
        "fb' ! x = (fb1 ! x \<or> (\<exists>i' \<in> {Suc i..unat ?ib}. block_marks ?ib (backing w i') x))"
        by simp
      with le show "fb' ! x = (fb ! x \<or> (\<exists>i' \<in> {i..unat ?ib}. block_marks ?ib (backing w i') x))"
        unfolding here Bex_from_upto [of i "unat ?ib" "\<lambda>i'. block_marks ?ib (backing w i') x"]
        by blast
    qed
    from r len1 len0 nth show ?thesis unfolding u by simp
  qed
qed

subsection \<open>Images with one valid inode\<close>

lemma bitmap_inodes_invalid:
  assumes "\<forall>j'. j \<le> j' \<and> j' < INODES_PER_BLOCK \<longrightarrow> valid (inode_at blk j') = 0"
  shows "bitmap_inodes ib blk j fb = fb"
  using assms
proof (induction ib blk j fb rule: bitmap_inodes.induct)
  case (1 ib blk j fb)
  show ?case
  proof (cases "j < INODES_PER_BLOCK")
    case False
    then show ?thesis by (simp add: bitmap_inodes.simps [of ib blk j fb])
  next
    case True
    with "1.prems" have v: "valid (inode_at blk j) = 0" by simp
    have "\<forall>j'. Suc j \<le> j' \<and> j' < INODES_PER_BLOCK \<longrightarrow> valid (inode_at blk j') = 0"
      using "1.prems" by simp
    from "1.IH"(1) [OF True refl v this] True v show ?thesis
      by (simp add: bitmap_inodes.simps [of ib blk j fb])
  qed
qed

lemma bitmap_inodes_first_only:
  assumes "valid (inode_at blk 0) \<noteq> 0"
    and "\<forall>j'. 0 < j' \<longrightarrow> valid (inode_at blk j') = 0"
  shows "bitmap_inodes ib blk 0 fb = bitmap_direct ib (inode_at blk 0) 0 fb"
proof -
  have "\<forall>j'. Suc 0 \<le> j' \<and> j' < INODES_PER_BLOCK \<longrightarrow> valid (inode_at blk j') = 0"
    using assms(2) by simp
  then have "bitmap_inodes ib blk (Suc 0) (bitmap_direct ib (inode_at blk 0) 0 fb)
      = bitmap_direct ib (inode_at blk 0) 0 fb"
    by (rule bitmap_inodes_invalid)
  with assms(1) show ?thesis
    by (simp add: bitmap_inodes.simps [of ib blk 0 fb] INODES_PER_BLOCK_def Let_def)
qed

lemma inode_at_zero_block: "valid (inode_at zero_block j) = 0"
  by (simp add: inode_at_def zero_block_def)

lemma upt_pointers: "[0..<POINTERS_PER_INODE] = [0, 1, 2, 3, 4]"
  by (simp add: POINTERS_PER_INODE_def eval_nat_numeral)

lemma bitmap_blocks_step:
  assumes "disk fs = Some d" and "readable w d i"
    and "i \<le> unat (inode_blocks (meta_data fs))" and "i \<noteq> INT_MAX"
  shows "bitmap_blocks w fs i fb
       = bitmap_blocks (after_read w (fd d) i) fs (Suc i)
           (bitmap_inodes (inode_blocks (meta_data fs)) (backing w i) 0 fb)"
  using assms
  by (simp add: bitmap_blocks.simps [of w fs i fb] read_block_ok block_size_not_failure Let_def)

lemma bitmap_blocks_done:
  assumes "unat (inode_blocks (meta_data fs)) < i"
  shows "bitmap_blocks w fs i fb = Inr (Some fb, w)"
  using assms by (simp add: bitmap_blocks.simps [of w fs i fb])

lemma inode_slot0_of_set_inode:
  assumes "direct ino = [a, b, c, d, e]"
  shows "inode_at (set_inode zero_block 0 ino) 0 = ino"
  using assms by (simp add: inode_at_def set_inode_def upt_pointers)

lemma inode_other_of_set_inode:
  assumes "0 < j"
  shows "valid (inode_at (set_inode zero_block 0 ino) j) = 0"
  using assms by (simp add: inode_at_def set_inode_def zero_block_def)

lemma single_inode_bitmap:
  assumes b1: "backing w 1 = set_inode zero_block 0 ino"
    and b2: "backing w 2 = zero_block"
    and dl: "direct ino = [a, b, c, d, e]"
    and v: "valid ino \<noteq> 0"
    and rd: "\<And>b. b < 20 \<Longrightarrow> readable w ex_disk b"
    and dk: "disk fs = Some ex_disk"
    and m: "meta_data fs = ex_super"
  shows "fs_initialize_free_block_bitmap w fs
     = Inr (fs\<lparr>free_blocks := Some (bitmap_direct 2 ino 0 (replicate 18 False))\<rparr>,
            after_read (after_read w 3 1) 3 2)"
proof -
  let ?clr = "replicate 18 False"
  let ?fb = "bitmap_direct 2 ino 0 ?clr"
  let ?w1 = "after_read w (fd ex_disk) 1"
  let ?w2 = "after_read ?w1 (fd ex_disk) (Suc 1)"
  have ib: "inode_blocks (meta_data fs) = 2" by (simp add: m ex_super_def)
  have s0: "inode_at (backing w 1) 0 = ino"
    unfolding b1 by (rule inode_slot0_of_set_inode [OF dl])
  have v1: "valid (inode_at (backing w 1) 0) \<noteq> 0"
    unfolding s0 by (rule v)
  have o1: "\<forall>j'. 0 < j' \<longrightarrow> valid (inode_at (backing w 1) j') = 0"
    unfolding b1 by (simp add: inode_other_of_set_inode)
  have i1: "bitmap_inodes 2 (backing w 1) 0 ?clr = ?fb"
    using bitmap_inodes_first_only [OF v1 o1, of 2 ?clr] unfolding s0 .
  have e: "Suc 1 = (2::nat)" by simp
  have b2': "backing ?w1 (Suc 1) = zero_block"
    unfolding e backing_after_read by (rule b2)
  have i2: "bitmap_inodes 2 (backing ?w1 (Suc 1)) 0 ?fb = ?fb"
    unfolding b2' by (rule bitmap_inodes_invalid) (simp add: inode_at_zero_block)
  have r1: "readable w ex_disk 1" by (simp add: rd)
  have r2: "readable ?w1 ex_disk (Suc 1)" by (simp add: rd)
  have "bitmap_blocks w fs 1 ?clr
      = bitmap_blocks ?w1 fs (Suc 1) (bitmap_inodes (inode_blocks (meta_data fs)) (backing w 1) 0 ?clr)"
    by (rule bitmap_blocks_step [OF dk r1]) (simp_all add: ib INT_MAX_def)
  also have "\<dots> = bitmap_blocks ?w1 fs (Suc 1) ?fb"
    by (simp only: ib i1)
  also have "\<dots> = bitmap_blocks ?w2 fs (Suc (Suc 1))
      (bitmap_inodes (inode_blocks (meta_data fs)) (backing ?w1 (Suc 1)) 0 ?fb)"
    by (rule bitmap_blocks_step [OF dk r2]) (simp_all add: ib INT_MAX_def)
  also have "\<dots> = bitmap_blocks ?w2 fs (Suc (Suc 1)) ?fb"
    by (simp only: ib i2)
  also have "\<dots> = Inr (Some ?fb, ?w2)"
    by (rule bitmap_blocks_done) (simp add: ib)
  finally have "bitmap_blocks w fs 1 ?clr = Inr (Some ?fb, after_read (after_read w 3 1) 3 2)"
    by (simp add: ex_disk_def numeral_2_eq_2)
  with dk m show ?thesis
    by (simp add: fs_initialize_free_block_bitmap_def ex_super_def Let_def)
qed

lemma ex_bitmap_direct:
  "bitmap_direct 2 ex_inode 0 (replicate 18 False) = (replicate 18 False)[0 := True]"
  by (simp add: bitmap_direct.simps POINTERS_PER_INODE_def ex_inode_def array_store_def)

lemma ex_big_bitmap_direct:
  "bitmap_direct 2 ex_big_inode 0 (replicate 18 False)
     = (replicate 18 False)[0 := True, 1 := True, 2 := True, 3 := True, 4 := True]"
  by (simp add: bitmap_direct.simps POINTERS_PER_INODE_def ex_big_inode_def array_store_def)

lemma ex_big_bitmap_list:
  "(replicate 18 False)[0 := True, 1 := True, 2 := True, 3 := True, 4 := True]
     = [True, True, True, True, True, False, False, False, False, False, False, False, False,
        False, False, False, False, False]"
  by code_simp

lemma ex_big_readable: "b < 20 \<Longrightarrow> readable ex_big_world ex_disk b"
  by (simp add: readable_def ex_big_world_def ex_world_def ex_disk_def)

lemma ex_big_bitmap:
  "fs_initialize_free_block_bitmap ex_big_world ex_fs
     = Inr (ex_fs\<lparr>free_blocks := Some
              [True, True, True, True, True, False, False, False, False, False, False, False,
               False, False, False, False, False, False]\<rparr>,
            after_read (after_read ex_big_world 3 1) 3 2)"
proof -
  have b1: "backing ex_big_world 1 = set_inode zero_block 0 ex_big_inode"
    and b2: "backing ex_big_world 2 = zero_block"
    by (simp_all add: ex_big_world_def ex_big_image_def ex_big_inode_block_def)
  have dl: "direct ex_big_inode = [3, 4, 5, 6, 7]" and v: "valid ex_big_inode \<noteq> 0"
    by (simp_all add: ex_big_inode_def)
  have dk: "disk ex_fs = Some ex_disk" and m: "meta_data ex_fs = ex_super"
    by (simp_all add: ex_fs_def)
  from single_inode_bitmap [OF b1 b2 dl v ex_big_readable dk m] show ?thesis
    by (simp only: ex_big_bitmap_direct ex_big_bitmap_list)
qed

subsection \<open>What the bitmap holds\<close>

text \<open>
  Claim C5, as the code has it. When every inode block can be read (and there are fewer
  than \<^verbatim>\<open>INT_MAX\<close> of them), \<^verbatim>\<open>fs_initialize_free_block_bitmap\<close> stores a bitmap of
  \<open>blocks - inode_blocks\<close> entries (32-bit subtraction), and an entry of it is set exactly
  when it is the entry \<open>p - 1 - inode_blocks\<close> of a non-zero direct pointer \<open>p\<close> of a
  valid inode. So there are fewer entries than blocks, block 0 and the inode blocks have
  none, and the size and the indirect pointer of an inode play no part: neither an
  indirect block nor the blocks it lists are marked.
\<close>

theorem bitmap_built_from_direct_pointers_only:
  assumes "disk fs = Some d"
    and "\<forall>i. 1 \<le> i \<and> i \<le> unat (inode_blocks (meta_data fs)) \<longrightarrow> readable w d i"
    and "unat (inode_blocks (meta_data fs)) < INT_MAX"
  shows "\<exists>bm w'. fs_initialize_free_block_bitmap w fs = Inr (fs\<lparr>free_blocks := Some bm\<rparr>, w')
       \<and> length bm = unat (sb_blocks (meta_data fs) - inode_blocks (meta_data fs))
       \<and> (\<forall>x. x < length bm \<longrightarrow> bm ! x = table_marks w (inode_blocks (meta_data fs)) x)"
proof -
  let ?n = "unat (sb_blocks (meta_data fs) - inode_blocks (meta_data fs))"
  from bitmap_blocks_exact [OF assms, of "replicate ?n False"]
  obtain bm w' where
    r: "bitmap_blocks w fs 1 (replicate ?n False) = Inr (Some bm, w')"
    and len: "length bm = length (replicate ?n False)"
    and nth: "\<forall>x. x < length (replicate ?n False) \<longrightarrow>
            bm ! x = (replicate ?n False ! x
                      \<or> (\<exists>i' \<in> {1..unat (inode_blocks (meta_data fs))}.
                            block_marks (inode_blocks (meta_data fs)) (backing w i') x))"
    by (elim exE conjE)
  have e: "fs_initialize_free_block_bitmap w fs = Inr (fs\<lparr>free_blocks := Some bm\<rparr>, w')"
    using assms(1) r by (simp add: fs_initialize_free_block_bitmap_def Let_def)
  have l: "length bm = ?n" using len by simp
  have n: "\<forall>x. x < length bm \<longrightarrow> bm ! x = table_marks w (inode_blocks (meta_data fs)) x"
  proof (intro allI impI)
    fix x assume "x < length bm"
    with l have x: "x < ?n" by simp
    with nth show "bm ! x = table_marks w (inode_blocks (meta_data fs)) x"
      by (simp add: table_marks_def)
  qed
  from e l n show ?thesis by blast
qed

text \<open>
  The image with the file of 20481 bytes: the bitmap has 18 entries for the 20 blocks,
  the entries of the direct pointers 3 to 7 are set, and those of the indirect block 8
  and of block 9, which the indirect block lists, are clear, both where this function
  would put them (entries 5 and 6) and at the block numbers themselves (entries 8 and
  9), where \<^verbatim>\<open>fs_remove\<close> looks.
\<close>

theorem bitmap_built_from_direct_pointers_only_witness:
  "\<exists>bm w'. fs_initialize_free_block_bitmap ex_big_world ex_fs
               = Inr (ex_fs\<lparr>free_blocks := Some bm\<rparr>, w')
     \<and> unat (sb_blocks (meta_data ex_fs)) = 20 \<and> length bm = 18
     \<and> bm = [True, True, True, True, True, False, False, False, False, False, False, False,
             False, False, False, False, False, False]
     \<and> BLOCK_SIZE * POINTERS_PER_INODE < unat (inode_size (inode_at (backing ex_big_world 1) 0))
     \<and> indirect (inode_at (backing ex_big_world 1) 0) = 8
     \<and> pointer_at (backing ex_big_world 8) 0 = 9
     \<and> bitmap_index 2 8 = 5 \<and> bitmap_index 2 9 = 6
     \<and> \<not> bm ! 5 \<and> \<not> bm ! 6 \<and> \<not> bm ! 8 \<and> \<not> bm ! 9
     \<and> \<not> table_marks ex_big_world 2 5 \<and> \<not> table_marks ex_big_world 2 6"
proof -
  let ?B = "[True, True, True, True, True, False, False, False, False, False, False, False,
             False, False, False, False, False, False]"
  have dk: "disk ex_fs = Some ex_disk" and m: "meta_data ex_fs = ex_super"
    by (simp_all add: ex_fs_def)
  have ib: "inode_blocks (meta_data ex_fs) = 2" by (simp add: m ex_super_def)
  have rd: "\<forall>i. 1 \<le> i \<and> i \<le> unat (inode_blocks (meta_data ex_fs))
              \<longrightarrow> readable ex_big_world ex_disk i"
    by (simp add: ib ex_big_readable)
  have lt: "unat (inode_blocks (meta_data ex_fs)) < INT_MAX"
    by (simp add: ib INT_MAX_def)
  from bitmap_built_from_direct_pointers_only [OF dk rd lt] obtain bm w' where
    e: "fs_initialize_free_block_bitmap ex_big_world ex_fs
          = Inr (ex_fs\<lparr>free_blocks := Some bm\<rparr>, w')"
    and l: "length bm = unat (sb_blocks (meta_data ex_fs) - inode_blocks (meta_data ex_fs))"
    and n: "\<forall>x. x < length bm \<longrightarrow> bm ! x = table_marks ex_big_world (inode_blocks (meta_data ex_fs)) x"
    by (elim exE conjE)
  from e ex_big_bitmap have bm: "bm = ?B"
    by (simp add: ex_fs_def)
  have l18: "length bm = 18" using l by (simp add: m ex_super_def)
  have t5: "\<not> table_marks ex_big_world 2 5"
    using n [rule_format, of 5] l18 by (simp add: ib bm)
  have t6: "\<not> table_marks ex_big_world 2 6"
    using n [rule_format, of 6] l18 by (simp add: ib bm)
  have b1: "backing ex_big_world 1 = set_inode zero_block 0 ex_big_inode"
    by (simp add: ex_big_world_def ex_big_image_def ex_big_inode_block_def)
  have dl: "direct ex_big_inode = [3, 4, 5, 6, 7]" by (simp add: ex_big_inode_def)
  have s0: "inode_at (backing ex_big_world 1) 0 = ex_big_inode"
    unfolding b1 by (rule inode_slot0_of_set_inode [OF dl])
  have sz: "BLOCK_SIZE * POINTERS_PER_INODE < unat (inode_size (inode_at (backing ex_big_world 1) 0))"
    unfolding s0 by (simp add: ex_big_inode_def BLOCK_SIZE_def POINTERS_PER_INODE_def)
  have ind: "indirect (inode_at (backing ex_big_world 1) 0) = 8"
    unfolding s0 by (simp add: ex_big_inode_def)
  have p: "pointer_at (backing ex_big_world 8) 0 = 9"
    by (simp add: pointer_at_def ex_big_world_def ex_big_image_def ex_indirect_block_def)
  have bi: "bitmap_index 2 8 = 5" "bitmap_index 2 9 = 6"
    by (simp_all add: bitmap_index_def)
  have sb: "unat (sb_blocks (meta_data ex_fs)) = 20" by (simp add: m ex_super_def)
  have nth: "\<not> ?B ! 5" "\<not> ?B ! 6" "\<not> ?B ! 8" "\<not> ?B ! 9"
    by simp_all
  from e sb l18 bm sz ind p bi nth t5 t6 show ?thesis
    by blast
qed

section \<open>fs\_format and fs\_mount\<close>

lemma format_loop_false:
  assumes "format_loop w dk c blk i = Inr (r, w')"
  shows "\<not> r"
  using assms
proof (induction w dk c blk i rule: format_loop.induct)
  case (1 w dk c blk i)
  show ?case
  proof (cases "i \<le> unat c")
    case False
    with "1.prems" show ?thesis
      by (simp add: format_loop.simps [of w dk c blk i])
  next
    case True
    obtain x w1 where dw: "disk_write w dk i (Some blk) = (x, w1)"
      by (cases "disk_write w dk i (Some blk)")
    show ?thesis
    proof (cases "x = DISK_FAILURE")
      case True
      with \<open>i \<le> unat c\<close> dw "1.prems" show ?thesis
        by (simp add: format_loop.simps [of w dk c blk i])
    next
      case False
      with \<open>i \<le> unat c\<close> dw "1.prems"
      have ni: "i \<noteq> INT_MAX" and r: "format_loop w1 dk c blk (Suc i) = Inr (r, w')"
        by (simp_all add: format_loop.simps [of w dk c blk i] split: if_splits)
      from "1.IH" [OF \<open>i \<le> unat c\<close> dw [symmetric] False ni r] show ?thesis .
    qed
  qed
qed

lemma format_loop_step:
  assumes "writable w d i" and "i \<le> unat c" and "i \<noteq> INT_MAX"
  shows "format_loop w (Some d) c blk i
       = format_loop (after_write w (fd d) i blk) (Some d) c blk (Suc i)"
  using assms
  by (simp add: format_loop.simps [of w "Some d" c blk i] disk_write_ok block_size_not_failure)

lemma format_loop_done:
  assumes "unat c < i"
  shows "format_loop w dk c blk i = Inr (False, w)"
  using assms by (simp add: format_loop.simps [of w dk c blk i])

lemma ex_writable: "b < 20 \<Longrightarrow> writable ex_world ex_disk b"
  by (simp add: writable_def ex_world_def ex_disk_def)

lemma ex_format:
  "\<exists>w'. fs_format ex_world ex_unmounted (Some ex_disk) 2 = Inr (False, w')
      \<and> io_log w' = [Lseek 3 0, Write 3, Lseek 3 BLOCK_SIZE, Write 3,
                      Lseek 3 (2 * BLOCK_SIZE), Write 3]"
proof -
  define blk0 where "blk0 = set_super (uninit ex_world)
      \<lparr>magic_number = MAGIC_NUMBER, sb_blocks = of_nat (blocks ex_disk), inode_blocks = 2,
       inodes = 2 * of_nat INODES_PER_BLOCK\<rparr>"
  define blk1 where "blk1 = fold (\<lambda>i b. set_inode b i
      \<lparr>valid = 0, inode_size = 0, direct = replicate POINTERS_PER_INODE 0, indirect = 0\<rparr>)
      [0..<INODES_PER_BLOCK] blk0"
  let ?w0 = "after_write ex_world (fd ex_disk) 0 blk0"
  let ?w1 = "after_write ?w0 (fd ex_disk) 1 blk1"
  let ?w2 = "after_write ?w1 (fd ex_disk) (Suc 1) blk1"
  have c: "unat (2 :: u32) = 2" by simp
  have "fs_format ex_world ex_unmounted (Some ex_disk) 2 = format_loop ?w0 (Some ex_disk) 2 blk1 1"
    by (simp add: fs_format_def Let_def disk_write_ok [OF ex_writable] block_size_not_failure
        blk0_def blk1_def)
  also have "\<dots> = format_loop ?w1 (Some ex_disk) 2 blk1 (Suc 1)"
    by (rule format_loop_step) (simp_all add: ex_writable INT_MAX_def)
  also have "\<dots> = format_loop ?w2 (Some ex_disk) 2 blk1 (Suc (Suc 1))"
    by (rule format_loop_step) (simp_all add: ex_writable INT_MAX_def)
  also have "\<dots> = Inr (False, ?w2)"
    by (rule format_loop_done) simp
  finally have "fs_format ex_world ex_unmounted (Some ex_disk) 2 = Inr (False, ?w2)" .
  moreover have "io_log ?w2 = [Lseek 3 0, Write 3, Lseek 3 BLOCK_SIZE, Write 3,
                      Lseek 3 (2 * BLOCK_SIZE), Write 3]"
    by (simp add: ex_disk_def ex_world_def)
  ultimately show ?thesis by blast
qed

lemma ex_super_of: "super_of (ex_image 0) = ex_super"
  by (simp add: super_of_def ex_image_def set_super_def ex_super_def)

lemma ex_mount:
  "fs_mount ex_world ex_unmounted (Some ex_disk)
     = Inr (False,
            \<lparr>disk = Some ex_disk, free_blocks = Some ((replicate 18 False)[0 := True]),
             meta_data = ex_super\<rparr>,
            after_read (after_read (after_read ex_world 3 0) 3 1) 3 2)"
proof -
  let ?w0 = "after_read ex_world 3 0"
  let ?fs = "\<lparr>disk = Some ex_disk, free_blocks = None, meta_data = ex_super\<rparr>"
  have f: "fd ex_disk = 3" by (simp add: ex_disk_def)
  have r0: "read_block ex_world (Some ex_disk) 0 blk = (int BLOCK_SIZE, ex_image 0, ?w0)" for blk
    using read_block_ok [OF ex_readable, of 0 blk] by (simp add: f ex_world_def)
  have mg: "magic_number ex_super = MAGIC_NUMBER" by (simp add: ex_super_def)
  have b1: "backing ?w0 1 = set_inode zero_block 0 ex_inode"
    and b2: "backing ?w0 2 = zero_block"
    by (simp_all add: ex_world_def ex_image_def ex_inode_block_def)
  have dl: "direct ex_inode = [3, 0, 0, 0, 0]" and v: "valid ex_inode \<noteq> 0"
    by (simp_all add: ex_inode_def)
  have rd: "\<And>b. b < 20 \<Longrightarrow> readable ?w0 ex_disk b" by (simp add: ex_readable)
  have bm: "fs_initialize_free_block_bitmap ?w0 ?fs
     = Inr (\<lparr>disk = Some ex_disk, free_blocks = Some ((replicate 18 False)[0 := True]),
             meta_data = ex_super\<rparr>,
            after_read (after_read ?w0 3 1) 3 2)"
    using single_inode_bitmap [OF b1 b2 dl v rd, of ?fs] by (simp add: ex_bitmap_direct)
  show ?thesis
    by (simp add: fs_mount_def r0 block_size_not_failure ex_super_of mg bm ex_unmounted_def)
qed

text \<open>
  Claim C7, as the code has it. Neither \<^verbatim>\<open>fs_format\<close> nor \<^verbatim>\<open>fs_mount\<close> ever returns
  true: every \<^verbatim>\<open>return\<close> of both functions, the last one included, is
  \<^verbatim>\<open>return false\<close>.
\<close>

theorem format_mount_never_return_true:
  "(fs_format w fs dk c = Inr (r, w') \<longrightarrow> \<not> r)
   \<and> (fs_mount w fs dk = Inr (r2, fs2, w2) \<longrightarrow> \<not> r2)"
proof (intro conjI impI)
  assume "fs_format w fs dk c = Inr (r, w')"
  then show "\<not> r"
    by (auto simp: fs_format_def Let_def split: option.splits prod.splits if_splits
        dest: format_loop_false)
next
  assume "fs_mount w fs dk = Inr (r2, fs2, w2)"
  then show "\<not> r2"
    by (auto simp: fs_mount_def split: option.splits prod.splits if_splits sum.splits)
qed

text \<open>
  On the concrete device all three writes of \<^verbatim>\<open>fs_format\<close> succeed (the superblock and
  two inode blocks), and \<^verbatim>\<open>fs_mount\<close> reads block 0, finds the magic number and builds
  the bitmap; both return false.
\<close>

theorem format_mount_never_return_true_witness:
  "\<exists>r w' r2 fs2 w2.
      fs_format ex_world ex_unmounted (Some ex_disk) 2 = Inr (r, w')
    \<and> io_log w' = [Lseek 3 0, Write 3, Lseek 3 BLOCK_SIZE, Write 3, Lseek 3 (2 * BLOCK_SIZE), Write 3]
    \<and> \<not> r
    \<and> fs_mount ex_world ex_unmounted (Some ex_disk) = Inr (r2, fs2, w2)
    \<and> meta_data fs2 = ex_super
    \<and> free_blocks fs2 = Some ((replicate 18 False)[0 := True])
    \<and> \<not> r2"
proof -
  from ex_format obtain r w' where
    a: "fs_format ex_world ex_unmounted (Some ex_disk) 2 = Inr (r, w')"
    and l: "io_log w' = [Lseek 3 0, Write 3, Lseek 3 BLOCK_SIZE, Write 3,
                      Lseek 3 (2 * BLOCK_SIZE), Write 3]"
    by blast
  define fs2 where "fs2 = \<lparr>disk = Some ex_disk,
      free_blocks = Some ((replicate 18 False)[0 := True]), meta_data = ex_super\<rparr>"
  define w2 where "w2 = after_read (after_read (after_read ex_world 3 0) 3 1) 3 2"
  define r2 where "r2 = False"
  have b: "fs_mount ex_world ex_unmounted (Some ex_disk) = Inr (r2, fs2, w2)"
    unfolding fs2_def w2_def r2_def by (rule ex_mount)
  have m: "meta_data fs2 = ex_super"
    and f: "free_blocks fs2 = Some ((replicate 18 False)[0 := True])"
    by (simp_all add: fs2_def)
  from format_mount_never_return_true [of ex_world ex_unmounted "Some ex_disk" 2 r w' r2 fs2 w2]
    a b
  have "\<not> r" and "\<not> r2" by blast+
  with a l b m f show ?thesis by blast
qed


end
